theory Spec2Isabelle
  imports Main
begin

section \<open>Python values as the transformers see them\<close>

text \<open>
  Both transformers of \<^verbatim>\<open>orbs-proxy.py\<close> work on the value that
  \<^verbatim>\<open>response.json()\<close> returns: \<^verbatim>\<open>None\<close>, a bool, an int, a float, a str, a list or
  a dict with str keys. A dict is its list of items in insertion order; the binding of a
  key is its first item (a Python dict holds one item per key). A str is the list of
  its code points, one \<^typ>\<open>char\<close> each, so the model covers the code points below 256.
  The code never computes with a float: it only tests one for truth and compares it
  with \<^verbatim>\<open>0\<close>, so a float is kept as sign, mantissa and binary exponent, or as an
  infinity or a NaN (all of which \<^verbatim>\<open>json.loads\<close> accepts).
\<close>

datatype pyfloat = FloatNum bool nat int | FloatInf bool | FloatNaN

datatype json =
    JNull
  | JBool bool
  | JInt int
  | JFloat pyfloat
  | JStr string
  | JList "json list"
  | JObj "(string \<times> json) list"

datatype py_error = AttributeError | TypeError | KeyError

definition pbind :: "py_error + 'a \<Rightarrow> ('a \<Rightarrow> py_error + 'b) \<Rightarrow> py_error + 'b" where
  "pbind m f = (case m of Inl e \<Rightarrow> Inl e | Inr x \<Rightarrow> f x)"

text \<open>\<^verbatim>\<open>d[k] = v\<close> on a dict: an existing key keeps its place, a new one goes last.\<close>

fun dict_set :: "(string \<times> 'v) list \<Rightarrow> string \<Rightarrow> 'v \<Rightarrow> (string \<times> 'v) list" where
  "dict_set [] k v = [(k, v)]"
| "dict_set (p # ps) k v = (if fst p = k then (k, v) # ps else p # dict_set ps k v)"

text \<open>The keys of a dict, each once, in the order of their first item.\<close>

fun dict_keys :: "(string \<times> 'v) list \<Rightarrow> string list" where
  "dict_keys [] = []"
| "dict_keys (p # ps) = fst p # filter (\<lambda>k. k \<noteq> fst p) (dict_keys ps)"

text \<open>\<^verbatim>\<open>x.get(k, d)\<close>: only a dict has the method.\<close>

fun py_get :: "json \<Rightarrow> string \<Rightarrow> json \<Rightarrow> py_error + json" where
  "py_get (JObj kvs) k d = Inr (case map_of kvs k of Some v \<Rightarrow> v | None \<Rightarrow> d)"
| "py_get _ k d = Inl AttributeError"

text \<open>\<^verbatim>\<open>sub in s\<close> on two strs is the substring test.\<close>

fun str_contains :: "string \<Rightarrow> string \<Rightarrow> bool" where
  "str_contains sub [] = (sub = [])"
| "str_contains sub (c # cs) = (take (length sub) (c # cs) = sub \<or> str_contains sub cs)"

text \<open>
  \<^verbatim>\<open>k in x\<close> for a str \<open>k\<close>: a key of a dict, an element of a list, a substring of a
  str; anything else is not a container.
\<close>

fun py_contains :: "string \<Rightarrow> json \<Rightarrow> py_error + bool" where
  "py_contains k (JObj kvs) = Inr (map_of kvs k \<noteq> None)"
| "py_contains k (JList xs) = Inr (JStr k \<in> set xs)"
| "py_contains k (JStr s) = Inr (str_contains k s)"
| "py_contains k _ = Inl TypeError"

text \<open>
  \<^verbatim>\<open>x[k]\<close> for a str \<open>k\<close>: the binding in a dict (KeyError without one); a list and a
  str take integer indices only; the other values have no subscript.
\<close>

fun py_subscript :: "json \<Rightarrow> string \<Rightarrow> py_error + json" where
  "py_subscript (JObj kvs) k = (case map_of kvs k of Some v \<Rightarrow> Inr v | None \<Rightarrow> Inl KeyError)"
| "py_subscript _ k = Inl TypeError"

text \<open>
  \<^verbatim>\<open>x[:4]\<close>: the first four elements of a list or str. A dict has no slice (TypeError,
  as the slice is unhashable; from Python 3.12 on a KeyError).
\<close>

fun py_slice4 :: "json \<Rightarrow> py_error + json" where
  "py_slice4 (JList xs) = Inr (JList (take 4 xs))"
| "py_slice4 (JStr s) = Inr (JStr (take 4 s))"
| "py_slice4 _ = Inl TypeError"

text \<open>
  \<^verbatim>\<open>for x in v\<close>: the elements of a list, the one-character strs of a str, the keys of
  a dict; the other values are not iterable.
\<close>

fun py_iter :: "json \<Rightarrow> py_error + json list" where
  "py_iter (JList xs) = Inr xs"
| "py_iter (JStr s) = Inr (map (\<lambda>c. JStr [c]) s)"
| "py_iter (JObj kvs) = Inr (map JStr (dict_keys kvs))"
| "py_iter _ = Inl TypeError"

text \<open>
  \<^verbatim>\<open>str.lower\<close> on the code points below 256: the letters A to Z and the capital
  letters of Latin-1 (192 to 222 without the multiplication sign 215) move up by 32.
\<close>

definition lower_char :: "char \<Rightarrow> char" where
  "lower_char c =
     (let n = (of_char c :: nat)
      in if (65 \<le> n \<and> n \<le> 90) \<or> (192 \<le> n \<and> n \<le> 222 \<and> n \<noteq> 215)
         then char_of (n + 32) else c)"

fun py_lower :: "json \<Rightarrow> py_error + string" where
  "py_lower (JStr s) = Inr (map lower_char s)"
| "py_lower _ = Inl AttributeError"

text \<open>The truth value of a value, as \<^verbatim>\<open>if x\<close> and \<^verbatim>\<open>x or y\<close> take it.\<close>

fun float_is_zero :: "pyfloat \<Rightarrow> bool" where
  "float_is_zero (FloatNum s m e) = (m = 0)"
| "float_is_zero _ = False"

fun py_truthy :: "json \<Rightarrow> bool" where
  "py_truthy JNull = False"
| "py_truthy (JBool b) = b"
| "py_truthy (JInt n) = (n \<noteq> 0)"
| "py_truthy (JFloat f) = (\<not> float_is_zero f)"
| "py_truthy (JStr s) = (s \<noteq> [])"
| "py_truthy (JList xs) = (xs \<noteq> [])"
| "py_truthy (JObj kvs) = (kvs \<noteq> [])"

text \<open>
  \<^verbatim>\<open>x == 0\<close>: true of the int 0, of a float zero of either sign and of \<^verbatim>\<open>False\<close>
  (a bool is an int in Python); false of every other value.
\<close>

fun py_eq_zero :: "json \<Rightarrow> bool" where
  "py_eq_zero (JInt n) = (n = 0)"
| "py_eq_zero (JFloat f) = float_is_zero f"
| "py_eq_zero (JBool b) = (\<not> b)"
| "py_eq_zero _ = False"

section \<open>The selection helpers\<close>

text \<open>\<^verbatim>\<open>def get_perf(data, perf): return data.get(perf, 0)\<close>\<close>

definition get_perf :: "json \<Rightarrow> string \<Rightarrow> py_error + json" where
  "get_perf data perf = py_get data perf (JInt 0)"

text \<open>
  \<^verbatim>\<open>def get_perf_chart(data, perf_chart):
      values = data.get("values", {})
      return values.get(perf_chart, 0)\<close>
\<close>

definition get_perf_chart :: "json \<Rightarrow> string \<Rightarrow> py_error + json" where
  "get_perf_chart data perf_chart =
     pbind (py_get data ''values'' (JObj [])) (\<lambda>values.
     py_get values perf_chart (JInt 0))"

section \<open>The weather transformer\<close>

text \<open>One assignment \<^verbatim>\<open>filtered[k] = source.get(k)\<close>.\<close>

definition copy_field :: "json \<Rightarrow> string \<Rightarrow> (string \<times> json) list \<Rightarrow> py_error + (string \<times> json) list" where
  "copy_field source k filtered =
     pbind (py_get source k JNull) (\<lambda>v. Inr (dict_set filtered k v))"

text \<open>The eight assignments of lines 86 to 93, into the empty dict of line 77.\<close>

definition filter_current_conditions :: "json \<Rightarrow> py_error + (string \<times> json) list" where
  "filter_current_conditions current_conditions =
     pbind (copy_field current_conditions ''air_temperature'' []) (\<lambda>d.
     pbind (copy_field current_conditions ''icon'' d) (\<lambda>d.
     pbind (copy_field current_conditions ''conditions'' d) (\<lambda>d.
     pbind (copy_field current_conditions ''feels_like'' d) (\<lambda>d.
     pbind (copy_field current_conditions ''relative_humidity'' d) (\<lambda>d.
     pbind (copy_field current_conditions ''station_pressure'' d) (\<lambda>d.
     pbind (copy_field current_conditions ''precip_probability'' d) (\<lambda>d.
     copy_field current_conditions ''wind_gust'' d)))))))"

text \<open>The dict display of lines 98 to 110.\<close>

definition filter_daily :: "json \<Rightarrow> py_error + json" where
  "filter_daily daily_forecast =
     pbind (py_get daily_forecast ''day_start_local'' JNull) (\<lambda>day_start_local.
     pbind (py_get daily_forecast ''air_temp_high'' JNull) (\<lambda>air_temp_high.
     pbind (py_get daily_forecast ''air_temp_low'' JNull) (\<lambda>air_temp_low.
     pbind (py_get daily_forecast ''conditions'' JNull) (\<lambda>conditions.
     pbind (py_get daily_forecast ''day_num'' JNull) (\<lambda>day_num.
     pbind (py_get daily_forecast ''month_num'' JNull) (\<lambda>month_num.
     pbind (py_get daily_forecast ''precip_probability'' JNull) (\<lambda>precip_probability.
     pbind (py_get daily_forecast ''precip_type'' JNull) (\<lambda>precip_type.
     pbind (py_get daily_forecast ''icon'' JNull) (\<lambda>icon.
     pbind (py_get daily_forecast ''precip_icon'' JNull) (\<lambda>precip_icon.
     Inr (JObj [(''day_start_local'', day_start_local),
                (''air_temp_high'', air_temp_high),
                (''air_temp_low'', air_temp_low),
                (''conditions'', conditions),
                (''day_num'', day_num),
                (''month_num'', month_num),
                (''precip_probability'', precip_probability),
                (''precip_type'', precip_type),
                (''icon'', icon),
                (''precip_icon'', precip_icon)])))))))))))"

text \<open>The loop of lines 97 to 111: \<open>daily\<close> is the list appended to so far.\<close>

fun daily_loop :: "json list \<Rightarrow> json list \<Rightarrow> py_error + json list" where
  "daily_loop [] daily = Inr daily"
| "daily_loop (daily_forecast # rest) daily =
     pbind (filter_daily daily_forecast) (\<lambda>filtered_daily.
     daily_loop rest (daily @ [filtered_daily]))"

definition transform_data_tempest :: "json \<Rightarrow> py_error + json" where
  "transform_data_tempest data =
     pbind (py_contains ''current_conditions'' data) (\<lambda>has_cc.
     pbind (if has_cc
            then pbind (py_subscript data ''current_conditions'') filter_current_conditions
            else Inr []) (\<lambda>current_conditions.
     pbind (py_contains ''forecast'' data) (\<lambda>has_forecast.
     pbind (if has_forecast
            then pbind (py_subscript data ''forecast'') (py_contains ''daily'')
            else Inr False) (\<lambda>has_daily.
     pbind (if has_daily
            then pbind (py_subscript data ''forecast'') (\<lambda>forecast.
                 pbind (py_subscript forecast ''daily'') (\<lambda>all_daily.
                 pbind (py_slice4 all_daily) (\<lambda>first4.
                 pbind (py_iter first4) (\<lambda>items.
                 daily_loop items []))))
            else Inr []) (\<lambda>daily.
     Inr (JObj [(''current_conditions'', JObj current_conditions),
                (''forecast'', JObj [(''daily'', JList daily)])]))))))"

section \<open>The portfolio transformer\<close>

text \<open>
  The body of the loop of lines 121 to 141 for one holding: \<open>None\<close> is
  \<^verbatim>\<open>continue\<close>, \<open>Some\<close> the dict that is appended.
\<close>

definition filter_holding :: "json \<Rightarrow> string \<Rightarrow> py_error + json option" where
  "filter_holding holding perf =
     pbind (pbind (py_get holding ''assetType'' (JStr [])) py_lower) (\<lambda>asset_type.
     if asset_type \<notin> set [''security'', ''crypto''] then Inr None
     else
     pbind (pbind (py_get holding ''position'' (JObj [])) (\<lambda>p. py_get p ''isSold'' JNull)) (\<lambda>is_sold.
     pbind (pbind (py_get holding ''position'' (JObj [])) (\<lambda>p. py_get p ''shares'' JNull)) (\<lambda>shares.
     if py_truthy is_sold \<or> py_eq_zero shares then Inr None
     else
     pbind (py_get holding ''currency'' JNull) (\<lambda>currency.
     pbind (pbind (py_get holding ''asset'' (JObj [])) (\<lambda>a. py_get a ''identifier'' JNull)) (\<lambda>ident.
     pbind (pbind (py_get holding ''sharedAsset'' (JObj [])) (\<lambda>a. py_get a ''name'' JNull)) (\<lambda>name.
     pbind (pbind (py_get holding ''performance'' (JObj [])) (\<lambda>p. py_get p ''priceAtIntervalStart'' JNull)) (\<lambda>price_start.
     pbind (pbind (py_get holding ''performance'' (JObj [])) (\<lambda>p. py_get p ''purchaseValueForInterval'' JNull)) (\<lambda>value_start.
     pbind (pbind (py_get holding ''position'' (JObj [])) (\<lambda>p. py_get p ''currentPrice'' JNull)) (\<lambda>price_now.
     pbind (pbind (py_get holding ''position'' (JObj [])) (\<lambda>p. py_get p ''currentValue'' JNull)) (\<lambda>value_now.
     pbind (pbind (py_get holding ''position'' (JObj [])) (\<lambda>p. py_get p ''shares'' JNull)) (\<lambda>shares_out.
     pbind (pbind (py_get holding ''performance'' (JObj [])) (\<lambda>p. get_perf p perf)) (\<lambda>perf_out.
     Inr (Some (JObj [(''assetType'', JStr asset_type),
                      (''currency'', currency),
                      (''id'', ident),
                      (''name'', name),
                      (''priceStart'', price_start),
                      (''valueStart'', value_start),
                      (''priceNow'', price_now),
                      (''valueNow'', value_now),
                      (''shares'', shares_out),
                      (''perf'', perf_out)]))))))))))))))"

fun holdings_loop :: "json list \<Rightarrow> string \<Rightarrow> json list \<Rightarrow> py_error + json list" where
  "holdings_loop [] perf holdings = Inr holdings"
| "holdings_loop (holding # rest) perf holdings =
     pbind (filter_holding holding perf) (\<lambda>r.
     case r of
       None \<Rightarrow> holdings_loop rest perf holdings
     | Some filtered_holding \<Rightarrow> holdings_loop rest perf (holdings @ [filtered_holding]))"

text \<open>
  The loop of lines 153 to 158, with the flag \<open>first\<close> and the list \<open>chart\<close>
  appended to so far.
\<close>

fun charts_loop :: "json list \<Rightarrow> string \<Rightarrow> bool \<Rightarrow> json list \<Rightarrow> py_error + json list" where
  "charts_loop [] perf_chart first chart = Inr chart"
| "charts_loop (c # rest) perf_chart first chart =
     (if first then charts_loop rest perf_chart False chart
      else pbind (get_perf_chart c perf_chart) (\<lambda>v.
           charts_loop rest perf_chart first (chart @ [v])))"

definition transform_data_parquet :: "json \<Rightarrow> string \<Rightarrow> string \<Rightarrow> py_error + json" where
  "transform_data_parquet data perf perf_chart =
     pbind (py_contains ''holdings'' data) (\<lambda>has_holdings.
     pbind (if has_holdings
            then pbind (py_subscript data ''holdings'') (\<lambda>hs.
                 pbind (py_iter hs) (\<lambda>items. holdings_loop items perf []))
            else Inr []) (\<lambda>holdings.
     pbind (py_get data ''performance'' (JObj [])) (\<lambda>performance_data.
     pbind (py_get performance_data ''purchaseValueForInterval'' JNull) (\<lambda>value_start.
     pbind (py_get performance_data ''value'' JNull) (\<lambda>value_now.
     pbind (get_perf performance_data perf) (\<lambda>perf_out.
     pbind (py_contains ''charts'' data) (\<lambda>has_charts.
     pbind (if has_charts
            then pbind (py_subscript data ''charts'') (\<lambda>cs.
                 pbind (py_iter cs) (\<lambda>items. charts_loop items perf_chart True []))
            else Inr []) (\<lambda>chart.
     Inr (JObj [(''holdings'', JList holdings),
                (''performance'',
                   JObj (dict_set [(''valueStart'', value_start), (''valueNow'', value_now)]
                           ''perf'' perf_out)),
                (''chart'', JList chart)])))))))))"

section \<open>Reading a payload\<close>

text \<open>
  The statements below speak of the fields of a payload. \<open>field x k\<close> is the value
  under key \<open>k\<close> when \<open>x\<close> is a mapping that has the key; \<open>field_or\<close> adds the
  default for an absent key.
\<close>

fun field :: "json \<Rightarrow> string \<Rightarrow> json option" where
  "field (JObj kvs) k = map_of kvs k"
| "field _ k = None"

definition field_or :: "json \<Rightarrow> string \<Rightarrow> json \<Rightarrow> json" where
  "field_or x k d = (case field x k of Some v \<Rightarrow> v | None \<Rightarrow> d)"

text \<open>The elements a \<^verbatim>\<open>for\<close> loop visits; none when the value is not iterable.\<close>

definition items_of :: "json \<Rightarrow> json list" where
  "items_of v = (case py_iter v of Inr xs \<Rightarrow> xs | Inl e \<Rightarrow> [])"

text \<open>The elements of the sequence under key \<open>k\<close>; none when the key is absent.\<close>

definition sub_items :: "json \<Rightarrow> string \<Rightarrow> json list" where
  "sub_items data k = (case field data k of Some v \<Rightarrow> items_of v | None \<Rightarrow> [])"

text \<open>The input sequence \<^verbatim>\<open>forecast.daily\<close>, empty when either key is absent.\<close>

definition daily_in :: "json \<Rightarrow> json list" where
  "daily_in data = (case field data ''forecast'' of None \<Rightarrow> [] | Some f \<Rightarrow> sub_items f ''daily'')"

text \<open>Copying the fields \<open>ks\<close> of a record, an absent field becoming null.\<close>

definition project :: "string list \<Rightarrow> json \<Rightarrow> json" where
  "project ks source = JObj (map (\<lambda>k. (k, field_or source k JNull)) ks)"

definition current_conditions_fields :: "string list" where
  "current_conditions_fields =
     [''air_temperature'', ''icon'', ''conditions'', ''feels_like'', ''relative_humidity'',
      ''station_pressure'', ''precip_probability'', ''wind_gust'']"

definition daily_fields :: "string list" where
  "daily_fields =
     [''day_start_local'', ''air_temp_high'', ''air_temp_low'', ''conditions'', ''day_num'',
      ''month_num'', ''precip_probability'', ''precip_type'', ''icon'', ''precip_icon'']"

subsection \<open>The holding filter rule as the specification words it\<close>

text \<open>
  The lower-cased \<^verbatim>\<open>assetType\<close> of a holding, a missing one counting as the empty
  string.
\<close>

definition asset_type_lower :: "json \<Rightarrow> string" where
  "asset_type_lower holding =
     (case field_or holding ''assetType'' (JStr []) of JStr s \<Rightarrow> map lower_char s | _ \<Rightarrow> [])"

text \<open>
  A holding qualifies when its lower-cased \<^verbatim>\<open>assetType\<close> is \<^verbatim>\<open>security\<close> or
  \<^verbatim>\<open>crypto\<close>, its \<^verbatim>\<open>position.isSold\<close> is not truthy and its \<^verbatim>\<open>position.shares\<close>
  does not equal 0.
\<close>

definition holding_qualifies :: "json \<Rightarrow> bool" where
  "holding_qualifies holding \<longleftrightarrow>
     asset_type_lower holding \<in> {''security'', ''crypto''}
     \<and> \<not> py_truthy (field_or (field_or holding ''position'' (JObj [])) ''isSold'' JNull)
     \<and> \<not> py_eq_zero (field_or (field_or holding ''position'' (JObj [])) ''shares'' JNull)"

text \<open>The ten-field shape of a surviving holding.\<close>

definition project_holding :: "string \<Rightarrow> json \<Rightarrow> json" where
  "project_holding perf holding =
     JObj [(''assetType'', JStr (asset_type_lower holding)),
           (''currency'', field_or holding ''currency'' JNull),
           (''id'', field_or (field_or holding ''asset'' (JObj [])) ''identifier'' JNull),
           (''name'', field_or (field_or holding ''sharedAsset'' (JObj [])) ''name'' JNull),
           (''priceStart'',
              field_or (field_or holding ''performance'' (JObj [])) ''priceAtIntervalStart'' JNull),
           (''valueStart'',
              field_or (field_or holding ''performance'' (JObj [])) ''purchaseValueForInterval'' JNull),
           (''priceNow'', field_or (field_or holding ''position'' (JObj [])) ''currentPrice'' JNull),
           (''valueNow'', field_or (field_or holding ''position'' (JObj [])) ''currentValue'' JNull),
           (''shares'', field_or (field_or holding ''position'' (JObj [])) ''shares'' JNull),
           (''perf'', field_or (field_or holding ''performance'' (JObj [])) perf (JInt 0))]"

text \<open>The scalar of one chart record.\<close>

definition chart_value :: "string \<Rightarrow> json \<Rightarrow> json" where
  "chart_value perf_chart c = field_or (field_or c ''values'' (JObj [])) perf_chart (JInt 0)"

subsection \<open>The shapes on which the transformers return\<close>

fun is_obj :: "json \<Rightarrow> bool" where
  "is_obj (JObj kvs) = True"
| "is_obj _ = False"

fun is_str :: "json \<Rightarrow> bool" where
  "is_str (JStr s) = True"
| "is_str _ = False"

fun is_list :: "json \<Rightarrow> bool" where
  "is_list (JList xs) = True"
| "is_list _ = False"

text \<open>
  Exactly the holdings on which the loop body does not raise: the later fields are read
  only when the earlier tests let the holding through.
\<close>

definition holding_shaped :: "json \<Rightarrow> bool" where
  "holding_shaped h \<longleftrightarrow>
     is_obj h \<and> is_str (field_or h ''assetType'' (JStr []))
     \<and> (asset_type_lower h \<in> {''security'', ''crypto''} \<longrightarrow>
          is_obj (field_or h ''position'' (JObj []))
          \<and> (holding_qualifies h \<longrightarrow>
               is_obj (field_or h ''asset'' (JObj []))
               \<and> is_obj (field_or h ''sharedAsset'' (JObj []))
               \<and> is_obj (field_or h ''performance'' (JObj []))))"

text \<open>
  A well-shaped holding: an object whose \<^verbatim>\<open>assetType\<close>, when present, is a string and
  whose \<^verbatim>\<open>position\<close>, \<^verbatim>\<open>asset\<close>, \<^verbatim>\<open>sharedAsset\<close> and \<^verbatim>\<open>performance\<close>, when
  present, are objects.
\<close>

definition holding_ok :: "json \<Rightarrow> bool" where
  "holding_ok h \<longleftrightarrow>
     is_obj h \<and> is_str (field_or h ''assetType'' (JStr []))
     \<and> is_obj (field_or h ''position'' (JObj []))
     \<and> is_obj (field_or h ''asset'' (JObj []))
     \<and> is_obj (field_or h ''sharedAsset'' (JObj []))
     \<and> is_obj (field_or h ''performance'' (JObj []))"

text \<open>A chart record that is an object whose \<^verbatim>\<open>values\<close>, when present, is an object.\<close>

definition chart_shaped :: "json \<Rightarrow> bool" where
  "chart_shaped c \<longleftrightarrow> is_obj c \<and> is_obj (field_or c ''values'' (JObj []))"

text \<open>
  A well-shaped portfolio payload: an object; \<^verbatim>\<open>holdings\<close>, when present, a list of
  well-shaped holdings; \<^verbatim>\<open>performance\<close>, when present, an object; \<^verbatim>\<open>charts\<close>, when
  present, a list whose records after the first are well shaped.
\<close>

definition portfolio_shaped :: "json \<Rightarrow> bool" where
  "portfolio_shaped data \<longleftrightarrow>
     is_obj data
     \<and> (case field data ''holdings'' of
          None \<Rightarrow> True
        | Some hs \<Rightarrow> is_list hs \<and> list_all holding_ok (items_of hs))
     \<and> is_obj (field_or data ''performance'' (JObj []))
     \<and> (case field data ''charts'' of
          None \<Rightarrow> True
        | Some cs \<Rightarrow> is_list cs \<and> list_all chart_shaped (tl (items_of cs)))"

text \<open>
  A well-shaped weather payload: an object; \<^verbatim>\<open>current_conditions\<close>, when present, an
  object; \<^verbatim>\<open>forecast\<close>, when present, an object whose \<^verbatim>\<open>daily\<close>, when present, is a
  list with objects in its first four places.
\<close>

definition weather_shaped :: "json \<Rightarrow> bool" where
  "weather_shaped data \<longleftrightarrow>
     is_obj data
     \<and> is_obj (field_or data ''current_conditions'' (JObj []))
     \<and> (case field data ''forecast'' of
          None \<Rightarrow> True
        | Some f \<Rightarrow> is_obj f
            \<and> (case field f ''daily'' of
                 None \<Rightarrow> True
               | Some d \<Rightarrow> is_list d \<and> list_all is_obj (take 4 (items_of d))))"

subsection \<open>The two loops of the portfolio transformer on an object payload\<close>

definition holdings_stage :: "json \<Rightarrow> string \<Rightarrow> py_error + json list" where
  "holdings_stage data perf =
     (case field data ''holdings'' of
        None \<Rightarrow> Inr []
      | Some hs \<Rightarrow> pbind (py_iter hs) (\<lambda>items. holdings_loop items perf []))"

definition charts_stage :: "json \<Rightarrow> string \<Rightarrow> py_error + json list" where
  "charts_stage data perf_chart =
     (case field data ''charts'' of
        None \<Rightarrow> Inr []
      | Some cs \<Rightarrow> pbind (py_iter cs) (\<lambda>items. charts_loop items perf_chart True []))"

section \<open>The endpoint handlers\<close>

text \<open>
  A handler either returns the transformed payload or raises. \<^verbatim>\<open>HTTPException\<close> is
  the only exception the handlers raise on purpose; the web framework answers it with
  its status code and detail, and answers any other exception that leaves a handler
  with status 500. The rate limiter runs before the handler and is not part of it;
  the routes are registered for GET and POST only, so a request with another method is
  answered by the framework with 405 and does not reach a handler.
\<close>

datatype raised =
    HTTPException nat string
  | ValidationError
  | JSONDecodeError
  | TransformError py_error

text \<open>
  A returned body is answered with 200 when it can be written as JSON. The framework
  writes it with \<^verbatim>\<open>allow_nan=False\<close>, so a body that holds a NaN or an infinity makes
  the writer raise and is answered with 500.
\<close>

fun float_finite :: "pyfloat \<Rightarrow> bool" where
  "float_finite (FloatNum s m e) = True"
| "float_finite _ = False"

fun json_compliant :: "json \<Rightarrow> bool" where
  "json_compliant (JFloat f) = float_finite f"
| "json_compliant (JList xs) = list_all json_compliant xs"
| "json_compliant (JObj kvs) = list_all (\<lambda>kv. json_compliant (snd kv)) kvs"
| "json_compliant _ = True"

fun http_status :: "raised + json \<Rightarrow> nat" where
  "http_status (Inr body) = (if json_compliant body then 200 else 500)"
| "http_status (Inl (HTTPException status_code detail)) = status_code"
| "http_status (Inl _) = 500"

text \<open>
  The request as the handler reads it: the method, the query parameters and the result
  of \<^verbatim>\<open>await request.json()\<close> (\<open>None\<close> when the body is not JSON and the call
  raises).
\<close>

record request =
  req_method :: string
  req_query_params :: "string \<Rightarrow> string option"
  req_json :: "json option"

text \<open>The outcome of the one upstream call: a response with status code, body text and
  the body decoded as JSON (\<open>None\<close> when it is not JSON), or \<^verbatim>\<open>httpx.RequestError\<close>
  (connection failures and timeouts) with its message.\<close>

datatype upstream_result =
    Response nat string "json option"
  | RequestError string

text \<open>
  \<^verbatim>\<open>class WeatherRequest(BaseModel)\<close> and \<^verbatim>\<open>class PortfolioRequest(BaseModel)\<close>, lines
  27 to 40. The field names carry a prefix here, as \<open>id\<close> and \<open>perf\<close> are taken.
\<close>

record weather_request =
  wr_station_id :: string
  wr_units_temp :: string
  wr_units_wind :: string
  wr_units_pressure :: string
  wr_units_precip :: string
  wr_units_distance :: string
  wr_api_key :: string

record portfolio_request =
  pr_id :: string
  pr_timeframe :: string
  pr_perf :: string
  pr_perfChart :: string

definition units_temp_literal :: "string list" where
  "units_temp_literal = [''c'', ''f'']"

definition units_wind_literal :: "string list" where
  "units_wind_literal = [''mph'', ''kph'', ''m/s'']"

definition units_pressure_literal :: "string list" where
  "units_pressure_literal = [''mb'', ''inHg'']"

definition units_precip_literal :: "string list" where
  "units_precip_literal = [''in'', ''mm'']"

definition units_distance_literal :: "string list" where
  "units_distance_literal = [''mi'', ''km'']"

definition timeframe_literal :: "string list" where
  "timeframe_literal =
     [''today'', ''1d'', ''1w'', ''1m'', ''3m'', ''6m'', ''1y'', ''5y'', ''10y'', ''mtd'', ''ytd'', ''max'']"

definition perf_literal :: "string list" where
  "perf_literal =
     [''returnGross'', ''returnNet'', ''totalReturnGross'', ''totalReturnNet'', ''ttwror'', ''izf'']"

definition perfChart_literal :: "string list" where
  "perfChart_literal = [''perfHistory'', ''perfHistoryUnrealized'', ''ttwror'', ''drawdown'']"

text \<open>
  The constructor \<^verbatim>\<open>WeatherRequest(...)\<close> on keyword arguments that are strs, as the
  GET branch calls it: the model validates the \<^verbatim>\<open>Literal\<close> fields and raises
  \<^verbatim>\<open>ValidationError\<close> when one is not among its values.
\<close>

definition WeatherRequest ::
  "string \<Rightarrow> string \<Rightarrow> string \<Rightarrow> string \<Rightarrow> string \<Rightarrow> string \<Rightarrow> string \<Rightarrow> raised + weather_request" where
  "WeatherRequest station_id units_temp units_wind units_pressure units_precip units_distance api_key =
     (if units_temp \<in> set units_temp_literal
         \<and> units_wind \<in> set units_wind_literal
         \<and> units_pressure \<in> set units_pressure_literal
         \<and> units_precip \<in> set units_precip_literal
         \<and> units_distance \<in> set units_distance_literal
      then Inr \<lparr>wr_station_id = station_id, wr_units_temp = units_temp, wr_units_wind = units_wind,
                wr_units_pressure = units_pressure, wr_units_precip = units_precip,
                wr_units_distance = units_distance, wr_api_key = api_key\<rparr>
      else Inl ValidationError)"

definition PortfolioRequest ::
  "string \<Rightarrow> string \<Rightarrow> string \<Rightarrow> string \<Rightarrow> raised + portfolio_request" where
  "PortfolioRequest ident timeframe perf perfChart =
     (if timeframe \<in> set timeframe_literal
         \<and> perf \<in> set perf_literal
         \<and> perfChart \<in> set perfChart_literal
      then Inr \<lparr>pr_id = ident, pr_timeframe = timeframe, pr_perf = perf, pr_perfChart = perfChart\<rparr>
      else Inl ValidationError)"

text \<open>
  The constructors on a decoded JSON body, \<^verbatim>\<open>WeatherRequest(**body)\<close>: the body must be
  a mapping that has every field. What the library accepts for a \<^verbatim>\<open>str\<close> field
  besides a str depends on its version, so that is the parameter \<open>str_field\<close>; a
  \<^verbatim>\<open>Literal\<close> field takes a str only. Every failure is an exception that the POST
  branch catches, so the model returns \<open>None\<close> for all of them.
\<close>

fun literal_field :: "json option \<Rightarrow> string option" where
  "literal_field (Some (JStr s)) = Some s"
| "literal_field _ = None"

definition WeatherRequest_of_body :: "(json \<Rightarrow> string option) \<Rightarrow> json \<Rightarrow> weather_request option" where
  "WeatherRequest_of_body str_field body =
     (case (Option.bind (field body ''station_id'') str_field,
            literal_field (field body ''units_temp''),
            literal_field (field body ''units_wind''),
            literal_field (field body ''units_pressure''),
            literal_field (field body ''units_precip''),
            literal_field (field body ''units_distance''),
            Option.bind (field body ''api_key'') str_field) of
        (Some station_id, Some units_temp, Some units_wind, Some units_pressure,
         Some units_precip, Some units_distance, Some api_key) \<Rightarrow>
          (case WeatherRequest station_id units_temp units_wind units_pressure units_precip
                  units_distance api_key of
             Inr request_data \<Rightarrow> Some request_data
           | Inl e \<Rightarrow> None)
      | _ \<Rightarrow> None)"

definition PortfolioRequest_of_body :: "(json \<Rightarrow> string option) \<Rightarrow> json \<Rightarrow> portfolio_request option" where
  "PortfolioRequest_of_body str_field body =
     (case (Option.bind (field body ''id'') str_field,
            literal_field (field body ''timeframe''),
            literal_field (field body ''perf''),
            literal_field (field body ''perfChart'')) of
        (Some ident, Some timeframe, Some perf, Some perfChart) \<Rightarrow>
          (case PortfolioRequest ident timeframe perf perfChart of
             Inr request_data \<Rightarrow> Some request_data
           | Inl e \<Rightarrow> None)
      | _ \<Rightarrow> None)"

text \<open>The truth value of a query parameter: \<^verbatim>\<open>None\<close> and the empty str are false.\<close>

fun param_truthy :: "string option \<Rightarrow> bool" where
  "param_truthy None = False"
| "param_truthy (Some s) = (s \<noteq> [])"

text \<open>Lines 181 to 210: from the request to the validated \<^verbatim>\<open>request_data\<close>.\<close>

definition tempest_request_data :: "(json \<Rightarrow> string option) \<Rightarrow> request \<Rightarrow> raised + weather_request" where
  "tempest_request_data str_field request =
     (if req_method request = ''GET'' then
        (let station_id = req_query_params request ''station_id'';
             units_temp = req_query_params request ''units_temp'';
             units_wind = req_query_params request ''units_wind'';
             units_pressure = req_query_params request ''units_pressure'';
             units_precip = req_query_params request ''units_precip'';
             units_distance = req_query_params request ''units_distance'';
             api_key = req_query_params request ''api_key''
         in if \<not> list_all param_truthy
                   [station_id, units_temp, units_wind, units_pressure, units_precip,
                    units_distance, api_key]
            then Inl (HTTPException 400 ''Missing required query parameters'')
            else WeatherRequest (the station_id) (the units_temp) (the units_wind)
                   (the units_pressure) (the units_precip) (the units_distance) (the api_key))
      else if req_method request = ''POST'' then
        (case Option.bind (req_json request) (WeatherRequest_of_body str_field) of
           Some request_data \<Rightarrow> Inr request_data
         | None \<Rightarrow> Inl (HTTPException 400 ''Invalid JSON body.''))
      else Inl (HTTPException 400 ''Unsupported request method''))"

text \<open>Lines 236 to 254.\<close>

definition parquet_request_data :: "(json \<Rightarrow> string option) \<Rightarrow> request \<Rightarrow> raised + portfolio_request" where
  "parquet_request_data str_field request =
     (if req_method request = ''GET'' then
        (let ident = req_query_params request ''id'';
             timeframe = req_query_params request ''timeframe'';
             perf = req_query_params request ''perf'';
             perf_chart = req_query_params request ''perfChart''
         in if \<not> param_truthy ident \<or> \<not> param_truthy timeframe
               \<or> \<not> param_truthy perf \<or> \<not> param_truthy perf_chart
            then Inl (HTTPException 400 ''Missing required query parameters'')
            else PortfolioRequest (the ident) (the timeframe) (the perf) (the perf_chart))
      else if req_method request = ''POST'' then
        (case Option.bind (req_json request) (PortfolioRequest_of_body str_field) of
           Some request_data \<Rightarrow> Inr request_data
         | None \<Rightarrow> Inl (HTTPException 400 ''Invalid JSON body.''))
      else Inl (HTTPException 400 ''Unsupported''))"

text \<open>
  Lines 44 to 68: \<^verbatim>\<open>raise_for_status\<close> raises on every status outside 200 to 299;
  \<^verbatim>\<open>response.json()\<close> raises a decode error, which neither \<^verbatim>\<open>except\<close> clause
  catches, when the body is not JSON.
\<close>

definition fetch_data :: "string \<Rightarrow> upstream_result \<Rightarrow> raised + json" where
  "fetch_data api_name upstream =
     (case upstream of
        RequestError message \<Rightarrow> Inl (HTTPException 502 (''Proxy error: '' @ message))
      | Response status_code body_text body_json \<Rightarrow>
          if 200 \<le> status_code \<and> status_code \<le> 299
          then (case body_json of Some raw \<Rightarrow> Inr raw | None \<Rightarrow> Inl JSONDecodeError)
          else Inl (HTTPException status_code (api_name @ '' API error: '' @ body_text)))"

definition fetch_weather_data :: "upstream_result \<Rightarrow> raised + json" where
  "fetch_weather_data upstream = fetch_data ''Weather'' upstream"

definition fetch_parqet_data :: "upstream_result \<Rightarrow> raised + json" where
  "fetch_parqet_data upstream = fetch_data ''Parqet'' upstream"

text \<open>
  The handlers. The first component of the result tells whether the upstream call was
  made; \<open>upstream\<close> is what that call yields.
\<close>

definition proxy_request_tempest ::
  "(json \<Rightarrow> string option) \<Rightarrow> request \<Rightarrow> upstream_result \<Rightarrow> bool \<times> (raised + json)" where
  "proxy_request_tempest str_field request upstream =
     (case tempest_request_data str_field request of
        Inl e \<Rightarrow> (False, Inl e)
      | Inr request_data \<Rightarrow>
          (True,
           case fetch_weather_data upstream of
             Inl e \<Rightarrow> Inl e
           | Inr raw_data \<Rightarrow>
               (case transform_data_tempest raw_data of
                  Inl e \<Rightarrow> Inl (TransformError e)
                | Inr filtered_data \<Rightarrow> Inr filtered_data)))"

definition proxy_request_parquet ::
  "(json \<Rightarrow> string option) \<Rightarrow> request \<Rightarrow> upstream_result \<Rightarrow> bool \<times> (raised + json)" where
  "proxy_request_parquet str_field request upstream =
     (case parquet_request_data str_field request of
        Inl e \<Rightarrow> (False, Inl e)
      | Inr request_data \<Rightarrow>
          (True,
           case fetch_parqet_data upstream of
             Inl e \<Rightarrow> Inl e
           | Inr raw_data \<Rightarrow>
               (case transform_data_parquet raw_data (pr_perf request_data)
                       (pr_perfChart request_data) of
                  Inl e \<Rightarrow> Inl (TransformError e)
                | Inr filtered_data \<Rightarrow> Inr filtered_data)))"

section \<open>The transformers on a store\<close>

text \<open>
  Whether a transformer changes its input, and whether its output shares a container
  with it, is a question about objects and references. Here a list or dict is a cell of
  a store and a value refers to it by address; the other values are immutable and are
  values as before. The store is the list of its cells, a new object goes to its end,
  and an assignment to an item or an \<^verbatim>\<open>append\<close> replaces the cell of the object it
  changes.
\<close>

datatype pyval = VNull | VBool bool | VInt int | VFloat pyfloat | VStr string | VRef nat

datatype pyobj = OList "pyval list" | ODict "(string \<times> pyval) list"

type_synonym heap = "pyobj list"

text \<open>
  A step of the program: an exception or a result, and the store it leaves. An
  exception ends the run and keeps the store as it is at that moment.
\<close>

type_synonym 'a hm = "heap \<Rightarrow> (py_error + 'a) \<times> heap"

definition hreturn :: "'a \<Rightarrow> 'a hm" where
  "hreturn x h = (Inr x, h)"

definition hbind :: "'a hm \<Rightarrow> ('a \<Rightarrow> 'b hm) \<Rightarrow> 'b hm" where
  "hbind m f h = (case m h of (Inl e, h') \<Rightarrow> (Inl e, h') | (Inr x, h') \<Rightarrow> f x h')"

text \<open>The object a value refers to.\<close>

fun cell :: "heap \<Rightarrow> pyval \<Rightarrow> pyobj option" where
  "cell h (VRef a) = (if a < length h then Some (h ! a) else None)"
| "cell h _ = None"

text \<open>The displays \<^verbatim>\<open>{...}\<close> and \<^verbatim>\<open>[...]\<close> make a new object.\<close>

definition h_new_dict :: "(string \<times> pyval) list \<Rightarrow> pyval hm" where
  "h_new_dict kvs h = (Inr (VRef (length h)), h @ [ODict kvs])"

definition h_new_list :: "pyval list \<Rightarrow> pyval hm" where
  "h_new_list vs h = (Inr (VRef (length h)), h @ [OList vs])"

text \<open>\<^verbatim>\<open>x.get(k, d)\<close>, \<^verbatim>\<open>k in x\<close>, \<^verbatim>\<open>x[k]\<close>, \<^verbatim>\<open>x[:4]\<close>, iteration and \<^verbatim>\<open>x.lower()\<close>, as before.\<close>

definition h_get :: "pyval \<Rightarrow> string \<Rightarrow> pyval \<Rightarrow> pyval hm" where
  "h_get x k d h =
     (case cell h x of
        Some (ODict kvs) \<Rightarrow> (Inr (case map_of kvs k of Some v \<Rightarrow> v | None \<Rightarrow> d), h)
      | _ \<Rightarrow> (Inl AttributeError, h))"

definition h_contains :: "string \<Rightarrow> pyval \<Rightarrow> bool hm" where
  "h_contains k x h =
     (case x of
        VStr s \<Rightarrow> (Inr (str_contains k s), h)
      | _ \<Rightarrow> (case cell h x of
                Some (ODict kvs) \<Rightarrow> (Inr (map_of kvs k \<noteq> None), h)
              | Some (OList vs) \<Rightarrow> (Inr (VStr k \<in> set vs), h)
              | None \<Rightarrow> (Inl TypeError, h)))"

definition h_subscript :: "pyval \<Rightarrow> string \<Rightarrow> pyval hm" where
  "h_subscript x k h =
     (case cell h x of
        Some (ODict kvs) \<Rightarrow> (case map_of kvs k of Some v \<Rightarrow> (Inr v, h) | None \<Rightarrow> (Inl KeyError, h))
      | _ \<Rightarrow> (Inl TypeError, h))"

definition h_slice4 :: "pyval \<Rightarrow> pyval hm" where
  "h_slice4 x h =
     (case x of
        VStr s \<Rightarrow> (Inr (VStr (take 4 s)), h)
      | _ \<Rightarrow> (case cell h x of
                Some (OList vs) \<Rightarrow> h_new_list (take 4 vs) h
              | _ \<Rightarrow> (Inl TypeError, h)))"

definition h_iter :: "pyval \<Rightarrow> pyval list hm" where
  "h_iter x h =
     (case x of
        VStr s \<Rightarrow> (Inr (map (\<lambda>c. VStr [c]) s), h)
      | _ \<Rightarrow> (case cell h x of
                Some (OList vs) \<Rightarrow> (Inr vs, h)
              | Some (ODict kvs) \<Rightarrow> (Inr (map VStr (dict_keys kvs)), h)
              | None \<Rightarrow> (Inl TypeError, h)))"

definition h_lower :: "pyval \<Rightarrow> string hm" where
  "h_lower x h = (case x of VStr s \<Rightarrow> (Inr (map lower_char s), h) | _ \<Rightarrow> (Inl AttributeError, h))"

text \<open>\<^verbatim>\<open>x[k] = v\<close> and \<^verbatim>\<open>x.append(v)\<close> change the object \<open>x\<close> refers to.\<close>

definition h_setitem :: "pyval \<Rightarrow> string \<Rightarrow> pyval \<Rightarrow> unit hm" where
  "h_setitem x k v h =
     (case x of
        VRef a \<Rightarrow> (case cell h x of
                     Some (ODict kvs) \<Rightarrow> (Inr (), h[a := ODict (dict_set kvs k v)])
                   | _ \<Rightarrow> (Inl TypeError, h))
      | _ \<Rightarrow> (Inl TypeError, h))"

definition h_append :: "pyval \<Rightarrow> pyval \<Rightarrow> unit hm" where
  "h_append x v h =
     (case x of
        VRef a \<Rightarrow> (case cell h x of
                     Some (OList vs) \<Rightarrow> (Inr (), h[a := OList (vs @ [v])])
                   | _ \<Rightarrow> (Inl AttributeError, h))
      | _ \<Rightarrow> (Inl AttributeError, h))"

text \<open>The truth value of a value, and \<^verbatim>\<open>x == 0\<close>; a container is true when not empty.\<close>

definition h_truthy :: "heap \<Rightarrow> pyval \<Rightarrow> bool" where
  "h_truthy h x =
     (case x of
        VNull \<Rightarrow> False
      | VBool b \<Rightarrow> b
      | VInt n \<Rightarrow> n \<noteq> 0
      | VFloat f \<Rightarrow> \<not> float_is_zero f
      | VStr s \<Rightarrow> s \<noteq> []
      | VRef a \<Rightarrow> (case cell h x of
                     Some (OList vs) \<Rightarrow> vs \<noteq> []
                   | Some (ODict kvs) \<Rightarrow> kvs \<noteq> []
                   | None \<Rightarrow> True))"

definition h_truth :: "pyval \<Rightarrow> bool hm" where
  "h_truth x h = (Inr (h_truthy h x), h)"

fun h_eq_zero :: "pyval \<Rightarrow> bool" where
  "h_eq_zero (VInt n) = (n = 0)"
| "h_eq_zero (VFloat f) = float_is_zero f"
| "h_eq_zero (VBool b) = (\<not> b)"
| "h_eq_zero _ = False"

subsection \<open>The weather transformer\<close>

text \<open>
  One of the lines 86 to 93: the right-hand side is evaluated first, then the target
  \<^verbatim>\<open>filtered_data["current_conditions"]\<close>, then the item is assigned.
\<close>

definition h_copy_field :: "pyval \<Rightarrow> pyval \<Rightarrow> string \<Rightarrow> unit hm" where
  "h_copy_field filtered_data current_conditions k =
     hbind (h_get current_conditions k VNull) (\<lambda>v.
     hbind (h_subscript filtered_data ''current_conditions'') (\<lambda>target.
     h_setitem target k v))"

definition h_filter_current_conditions :: "pyval \<Rightarrow> pyval \<Rightarrow> unit hm" where
  "h_filter_current_conditions filtered_data current_conditions =
     hbind (h_copy_field filtered_data current_conditions ''air_temperature'') (\<lambda>_.
     hbind (h_copy_field filtered_data current_conditions ''icon'') (\<lambda>_.
     hbind (h_copy_field filtered_data current_conditions ''conditions'') (\<lambda>_.
     hbind (h_copy_field filtered_data current_conditions ''feels_like'') (\<lambda>_.
     hbind (h_copy_field filtered_data current_conditions ''relative_humidity'') (\<lambda>_.
     hbind (h_copy_field filtered_data current_conditions ''station_pressure'') (\<lambda>_.
     hbind (h_copy_field filtered_data current_conditions ''precip_probability'') (\<lambda>_.
     h_copy_field filtered_data current_conditions ''wind_gust'')))))))"

definition h_filter_daily :: "pyval \<Rightarrow> pyval hm" where
  "h_filter_daily daily_forecast =
     hbind (h_get daily_forecast ''day_start_local'' VNull) (\<lambda>day_start_local.
     hbind (h_get daily_forecast ''air_temp_high'' VNull) (\<lambda>air_temp_high.
     hbind (h_get daily_forecast ''air_temp_low'' VNull) (\<lambda>air_temp_low.
     hbind (h_get daily_forecast ''conditions'' VNull) (\<lambda>conditions.
     hbind (h_get daily_forecast ''day_num'' VNull) (\<lambda>day_num.
     hbind (h_get daily_forecast ''month_num'' VNull) (\<lambda>month_num.
     hbind (h_get daily_forecast ''precip_probability'' VNull) (\<lambda>precip_probability.
     hbind (h_get daily_forecast ''precip_type'' VNull) (\<lambda>precip_type.
     hbind (h_get daily_forecast ''icon'' VNull) (\<lambda>icon.
     hbind (h_get daily_forecast ''precip_icon'' VNull) (\<lambda>precip_icon.
     h_new_dict [(''day_start_local'', day_start_local),
                 (''air_temp_high'', air_temp_high),
                 (''air_temp_low'', air_temp_low),
                 (''conditions'', conditions),
                 (''day_num'', day_num),
                 (''month_num'', month_num),
                 (''precip_probability'', precip_probability),
                 (''precip_type'', precip_type),
                 (''icon'', icon),
                 (''precip_icon'', precip_icon)]))))))))))"

text \<open>The body of the loop of lines 97 to 111, and the loop.\<close>

definition h_daily_step :: "pyval \<Rightarrow> pyval \<Rightarrow> unit hm" where
  "h_daily_step filtered_data daily_forecast =
     hbind (h_filter_daily daily_forecast) (\<lambda>filtered_daily.
     hbind (h_subscript filtered_data ''forecast'') (\<lambda>forecast.
     hbind (h_subscript forecast ''daily'') (\<lambda>daily.
     h_append daily filtered_daily)))"

fun h_daily_loop :: "pyval list \<Rightarrow> pyval \<Rightarrow> unit hm" where
  "h_daily_loop [] filtered_data h = (Inr (), h)"
| "h_daily_loop (daily_forecast # rest) filtered_data h =
     (case h_daily_step filtered_data daily_forecast h of
        (Inl e, h') \<Rightarrow> (Inl e, h')
      | (Inr u, h') \<Rightarrow> h_daily_loop rest filtered_data h')"

text \<open>Lines 83 to 113, on the \<^verbatim>\<open>filtered_data\<close> made before.\<close>

definition h_tempest_fill :: "pyval \<Rightarrow> pyval \<Rightarrow> pyval hm" where
  "h_tempest_fill filtered_data data =
     hbind (h_contains ''current_conditions'' data) (\<lambda>has_cc.
     hbind (if has_cc
            then hbind (h_subscript data ''current_conditions'')
                   (h_filter_current_conditions filtered_data)
            else hreturn ()) (\<lambda>_.
     hbind (h_contains ''forecast'' data) (\<lambda>has_forecast.
     hbind (if has_forecast
            then hbind (h_subscript data ''forecast'') (h_contains ''daily'')
            else hreturn False) (\<lambda>has_daily.
     hbind (if has_daily
            then hbind (h_subscript data ''forecast'') (\<lambda>forecast_in.
                 hbind (h_subscript forecast_in ''daily'') (\<lambda>all_daily.
                 hbind (h_slice4 all_daily) (\<lambda>first4.
                 hbind (h_iter first4) (\<lambda>items.
                 h_daily_loop items filtered_data))))
            else hreturn ()) (\<lambda>_.
     hreturn filtered_data)))))"

text \<open>
  Lines 76 to 113. The display of lines 76 to 81 makes the inner objects before the
  outer ones.
\<close>

definition h_transform_data_tempest :: "pyval \<Rightarrow> pyval hm" where
  "h_transform_data_tempest data =
     hbind (h_new_dict []) (\<lambda>cc.
     hbind (h_new_list []) (\<lambda>daily.
     hbind (h_new_dict [(''daily'', daily)]) (\<lambda>forecast.
     hbind (h_new_dict [(''current_conditions'', cc), (''forecast'', forecast)]) (\<lambda>filtered_data.
     h_tempest_fill filtered_data data))))"

subsection \<open>The portfolio transformer\<close>

text \<open>\<^verbatim>\<open>x.get(k, {}).get(k', d)\<close>: the default \<^verbatim>\<open>{}\<close> is a new object at each call.\<close>

definition h_get2 :: "pyval \<Rightarrow> string \<Rightarrow> string \<Rightarrow> pyval \<Rightarrow> pyval hm" where
  "h_get2 x k k' d =
     hbind (h_new_dict []) (\<lambda>empty.
     hbind (h_get x k empty) (\<lambda>sub.
     h_get sub k' d))"

definition h_get_perf_chart :: "pyval \<Rightarrow> string \<Rightarrow> pyval hm" where
  "h_get_perf_chart data perf_chart = h_get2 data ''values'' perf_chart (VInt 0)"

text \<open>\<^verbatim>\<open>filtered_data[k].append({...})\<close>, the display made first.\<close>

definition h_append_record :: "pyval \<Rightarrow> string \<Rightarrow> (string \<times> pyval) list \<Rightarrow> unit hm" where
  "h_append_record filtered_data k kvs =
     hbind (h_new_dict kvs) (\<lambda>record.
     hbind (h_subscript filtered_data k) (\<lambda>target.
     h_append target record))"

text \<open>
  The body of the loop of lines 121 to 141; the result tells whether the holding was
  appended.
\<close>

definition h_holding_step :: "pyval \<Rightarrow> string \<Rightarrow> pyval \<Rightarrow> bool hm" where
  "h_holding_step filtered_data perf holding =
     hbind (hbind (h_get holding ''assetType'' (VStr [])) h_lower) (\<lambda>asset_type.
     if asset_type \<notin> set [''security'', ''crypto''] then hreturn False
     else
     hbind (h_get2 holding ''position'' ''isSold'' VNull) (\<lambda>is_sold.
     hbind (h_get2 holding ''position'' ''shares'' VNull) (\<lambda>shares.
     hbind (h_truth is_sold) (\<lambda>sold.
     if sold \<or> h_eq_zero shares then hreturn False
     else
     hbind (h_get holding ''currency'' VNull) (\<lambda>currency.
     hbind (h_get2 holding ''asset'' ''identifier'' VNull) (\<lambda>ident.
     hbind (h_get2 holding ''sharedAsset'' ''name'' VNull) (\<lambda>name.
     hbind (h_get2 holding ''performance'' ''priceAtIntervalStart'' VNull) (\<lambda>price_start.
     hbind (h_get2 holding ''performance'' ''purchaseValueForInterval'' VNull) (\<lambda>value_start.
     hbind (h_get2 holding ''position'' ''currentPrice'' VNull) (\<lambda>price_now.
     hbind (h_get2 holding ''position'' ''currentValue'' VNull) (\<lambda>value_now.
     hbind (h_get2 holding ''position'' ''shares'' VNull) (\<lambda>shares_out.
     hbind (h_get2 holding ''performance'' perf (VInt 0)) (\<lambda>perf_out.
     hbind (h_append_record filtered_data ''holdings''
              [(''assetType'', VStr asset_type),
               (''currency'', currency),
               (''id'', ident),
               (''name'', name),
               (''priceStart'', price_start),
               (''valueStart'', value_start),
               (''priceNow'', price_now),
               (''valueNow'', value_now),
               (''shares'', shares_out),
               (''perf'', perf_out)]) (\<lambda>_.
     hreturn True))))))))))))))"

fun h_holdings_loop :: "pyval list \<Rightarrow> pyval \<Rightarrow> string \<Rightarrow> unit hm" where
  "h_holdings_loop [] filtered_data perf h = (Inr (), h)"
| "h_holdings_loop (holding # rest) filtered_data perf h =
     (case h_holding_step filtered_data perf holding h of
        (Inl e, h') \<Rightarrow> (Inl e, h')
      | (Inr u, h') \<Rightarrow> h_holdings_loop rest filtered_data perf h')"

text \<open>
  The body of the loop of lines 153 to 158 after the first record: the target of
  \<^verbatim>\<open>append\<close> is evaluated before its argument.
\<close>

definition h_chart_step :: "pyval \<Rightarrow> string \<Rightarrow> pyval \<Rightarrow> unit hm" where
  "h_chart_step filtered_data perf_chart chart =
     hbind (h_subscript filtered_data ''chart'') (\<lambda>target.
     hbind (h_get_perf_chart chart perf_chart) (\<lambda>v.
     h_append target v))"

fun h_charts_loop :: "pyval list \<Rightarrow> pyval \<Rightarrow> string \<Rightarrow> bool \<Rightarrow> unit hm" where
  "h_charts_loop [] filtered_data perf_chart first h = (Inr (), h)"
| "h_charts_loop (chart # rest) filtered_data perf_chart first h =
     (if first then h_charts_loop rest filtered_data perf_chart False h
      else (case h_chart_step filtered_data perf_chart chart h of
              (Inl e, h') \<Rightarrow> (Inl e, h')
            | (Inr u, h') \<Rightarrow> h_charts_loop rest filtered_data perf_chart first h'))"

text \<open>Lines 143 to 149.\<close>

definition h_performance :: "pyval \<Rightarrow> pyval \<Rightarrow> string \<Rightarrow> unit hm" where
  "h_performance filtered_data data perf =
     hbind (h_new_dict []) (\<lambda>empty.
     hbind (h_get data ''performance'' empty) (\<lambda>performance_data.
     hbind (h_get performance_data ''purchaseValueForInterval'' VNull) (\<lambda>value_start.
     hbind (h_get performance_data ''value'' VNull) (\<lambda>value_now.
     hbind (h_new_dict [(''valueStart'', value_start), (''valueNow'', value_now)]) (\<lambda>performance.
     hbind (h_setitem filtered_data ''performance'' performance) (\<lambda>_.
     hbind (h_get performance_data perf (VInt 0)) (\<lambda>perf_out.
     hbind (h_subscript filtered_data ''performance'') (\<lambda>target.
     h_setitem target ''perf'' perf_out))))))))"

text \<open>Lines 120 to 160, on the \<^verbatim>\<open>filtered_data\<close> made before.\<close>

definition h_parquet_fill :: "pyval \<Rightarrow> pyval \<Rightarrow> string \<Rightarrow> string \<Rightarrow> pyval hm" where
  "h_parquet_fill filtered_data data perf perf_chart =
     hbind (h_contains ''holdings'' data) (\<lambda>has_holdings.
     hbind (if has_holdings
            then hbind (h_subscript data ''holdings'') (\<lambda>hs.
                 hbind (h_iter hs) (\<lambda>items. h_holdings_loop items filtered_data perf))
            else hreturn ()) (\<lambda>_.
     hbind (h_performance filtered_data data perf) (\<lambda>_.
     hbind (h_contains ''charts'' data) (\<lambda>has_charts.
     hbind (if has_charts
            then hbind (h_subscript data ''charts'') (\<lambda>cs.
                 hbind (h_iter cs) (\<lambda>items. h_charts_loop items filtered_data perf_chart True))
            else hreturn ()) (\<lambda>_.
     hreturn filtered_data)))))"

text \<open>Lines 116 to 160.\<close>

definition h_transform_data_parquet :: "pyval \<Rightarrow> string \<Rightarrow> string \<Rightarrow> pyval hm" where
  "h_transform_data_parquet data perf perf_chart =
     hbind (h_new_list []) (\<lambda>holdings.
     hbind (h_new_dict []) (\<lambda>performance.
     hbind (h_new_list []) (\<lambda>chart.
     hbind (h_new_dict [(''holdings'', holdings), (''performance'', performance),
                        (''chart'', chart)]) (\<lambda>filtered_data.
     h_parquet_fill filtered_data data perf perf_chart))))"

subsection \<open>Payloads in the store\<close>

text \<open>
  \<open>store j h\<close> builds the payload \<open>j\<close> in the store, the elements of a container
  before the container, and returns the value for it; \<open>readback\<close> reads a value back
  as a payload, to the given depth.
\<close>

fun store :: "json \<Rightarrow> heap \<Rightarrow> pyval \<times> heap"
  and store_list :: "json list \<Rightarrow> heap \<Rightarrow> pyval list \<times> heap"
  and store_items :: "(string \<times> json) list \<Rightarrow> heap \<Rightarrow> (string \<times> pyval) list \<times> heap"
  and store_item :: "string \<times> json \<Rightarrow> heap \<Rightarrow> (string \<times> pyval) \<times> heap" where
  "store JNull h = (VNull, h)"
| "store (JBool b) h = (VBool b, h)"
| "store (JInt n) h = (VInt n, h)"
| "store (JFloat f) h = (VFloat f, h)"
| "store (JStr s) h = (VStr s, h)"
| "store (JList js) h = (case store_list js h of (vs, h') \<Rightarrow> (VRef (length h'), h' @ [OList vs]))"
| "store (JObj kjs) h = (case store_items kjs h of (kvs, h') \<Rightarrow> (VRef (length h'), h' @ [ODict kvs]))"
| "store_list [] h = ([], h)"
| "store_list (j # js) h =
     (case store j h of (v, h') \<Rightarrow> (case store_list js h' of (vs, h'') \<Rightarrow> (v # vs, h'')))"
| "store_items [] h = ([], h)"
| "store_items (kj # kjs) h =
     (case store_item kj h of (kv, h') \<Rightarrow> (case store_items kjs h' of (kvs, h'') \<Rightarrow> (kv # kvs, h'')))"
| "store_item (k, j) h = (case store j h of (v, h') \<Rightarrow> ((k, v), h'))"

fun those_list :: "'a option list \<Rightarrow> 'a list option" where
  "those_list [] = Some []"
| "those_list (x # xs) =
     (case x of None \<Rightarrow> None
      | Some y \<Rightarrow> (case those_list xs of None \<Rightarrow> None | Some ys \<Rightarrow> Some (y # ys)))"

fun readback :: "nat \<Rightarrow> heap \<Rightarrow> pyval \<Rightarrow> json option" where
  "readback d h VNull = Some JNull"
| "readback d h (VBool b) = Some (JBool b)"
| "readback d h (VInt n) = Some (JInt n)"
| "readback d h (VFloat f) = Some (JFloat f)"
| "readback d h (VStr s) = Some (JStr s)"
| "readback 0 h (VRef a) = None"
| "readback (Suc d) h (VRef a) =
     (case cell h (VRef a) of
        None \<Rightarrow> None
      | Some (OList vs) \<Rightarrow> map_option JList (those_list (map (readback d h) vs))
      | Some (ODict kvs) \<Rightarrow>
          map_option JObj
            (those_list (map (\<lambda>kv. map_option (Pair (fst kv)) (readback d h (snd kv))) kvs)))"

text \<open>The outcome of a run read back: the output as a payload.\<close>

definition run_readback :: "nat \<Rightarrow> (py_error + pyval) \<times> heap \<Rightarrow> py_error + json option" where
  "run_readback d r = (case r of (Inl e, h) \<Rightarrow> Inl e | (Inr v, h) \<Rightarrow> Inr (readback d h v))"

subsection \<open>What a run leaves in the store\<close>








section \<open>Sample payloads\<close>

text \<open>
  A weather payload with one current-conditions field and five daily records, and one
  without any key.
\<close>

definition sample_weather :: json where
  "sample_weather =
     JObj [(''current_conditions'', JObj [(''icon'', JStr ''cloudy''), (''uv'', JInt 3)]),
           (''forecast'',
              JObj [(''daily'',
                 JList [JObj [(''day_num'', JInt 1)], JObj [(''day_num'', JInt 2)],
                        JObj [(''icon'', JStr ''rainy'')], JObj [], JObj [(''day_num'', JInt 5)]])])]"

text \<open>
  A portfolio payload: an upper-case security with negative shares, one with zero
  shares, a bond, a sold crypto and a crypto with null shares; three chart records, the
  first of them null.
\<close>

definition sample_portfolio :: json where
  "sample_portfolio =
     JObj [(''holdings'',
              JList [JObj [(''assetType'', JStr ''SECURITY''),
                           (''position'', JObj [(''shares'', JInt (- 5))])],
                     JObj [(''assetType'', JStr ''SECURITY''),
                           (''position'', JObj [(''shares'', JInt 0)])],
                     JObj [(''assetType'', JStr ''bond''),
                           (''position'', JObj [(''shares'', JInt 7)])],
                     JObj [(''assetType'', JStr ''crypto''),
                           (''position'', JObj [(''isSold'', JBool True), (''shares'', JInt 2)])],
                     JObj [(''assetType'', JStr ''Crypto''),
                           (''performance'', JObj [(''ttwror'', JInt 4)])]]),
           (''performance'', JObj [(''value'', JInt 100), (''ttwror'', JInt 9)]),
           (''charts'',
              JList [JNull,
                     JObj [],
                     JObj [(''values'', JObj [(''drawdown'', JInt 3)])]])]"

definition sample_weather_out :: json where
  "sample_weather_out =
     JObj [(''current_conditions'',
              JObj [(''air_temperature'', JNull), (''icon'', JStr ''cloudy''),
                    (''conditions'', JNull), (''feels_like'', JNull),
                    (''relative_humidity'', JNull), (''station_pressure'', JNull),
                    (''precip_probability'', JNull), (''wind_gust'', JNull)]),
           (''forecast'',
              JObj [(''daily'',
                 JList [JObj [(''day_start_local'', JNull), (''air_temp_high'', JNull),
                              (''air_temp_low'', JNull), (''conditions'', JNull),
                              (''day_num'', JInt 1), (''month_num'', JNull),
                              (''precip_probability'', JNull), (''precip_type'', JNull),
                              (''icon'', JNull), (''precip_icon'', JNull)],
                        JObj [(''day_start_local'', JNull), (''air_temp_high'', JNull),
                              (''air_temp_low'', JNull), (''conditions'', JNull),
                              (''day_num'', JInt 2), (''month_num'', JNull),
                              (''precip_probability'', JNull), (''precip_type'', JNull),
                              (''icon'', JNull), (''precip_icon'', JNull)],
                        JObj [(''day_start_local'', JNull), (''air_temp_high'', JNull),
                              (''air_temp_low'', JNull), (''conditions'', JNull),
                              (''day_num'', JNull), (''month_num'', JNull),
                              (''precip_probability'', JNull), (''precip_type'', JNull),
                              (''icon'', JStr ''rainy''), (''precip_icon'', JNull)],
                        JObj [(''day_start_local'', JNull), (''air_temp_high'', JNull),
                              (''air_temp_low'', JNull), (''conditions'', JNull),
                              (''day_num'', JNull), (''month_num'', JNull),
                              (''precip_probability'', JNull), (''precip_type'', JNull),
                              (''icon'', JNull), (''precip_icon'', JNull)]])])]"

definition empty_weather_out :: json where
  "empty_weather_out =
     JObj [(''current_conditions'', JObj []), (''forecast'', JObj [(''daily'', JList [])])]"

definition sample_portfolio_out :: json where
  "sample_portfolio_out =
     JObj [(''holdings'',
              JList [JObj [(''assetType'', JStr ''security''), (''currency'', JNull),
                           (''id'', JNull), (''name'', JNull), (''priceStart'', JNull),
                           (''valueStart'', JNull), (''priceNow'', JNull),
                           (''valueNow'', JNull), (''shares'', JInt (- 5)),
                           (''perf'', JInt 0)],
                     JObj [(''assetType'', JStr ''crypto''), (''currency'', JNull),
                           (''id'', JNull), (''name'', JNull), (''priceStart'', JNull),
                           (''valueStart'', JNull), (''priceNow'', JNull),
                           (''valueNow'', JNull), (''shares'', JNull),
                           (''perf'', JInt 4)]]),
           (''performance'',
              JObj [(''valueStart'', JNull), (''valueNow'', JInt 100), (''perf'', JInt 9)]),
           (''chart'', JList [JInt 0, JInt 3])]"

definition empty_portfolio_out :: json where
  "empty_portfolio_out =
     JObj [(''holdings'', JList []),
           (''performance'',
              JObj [(''valueStart'', JNull), (''valueNow'', JNull), (''perf'', JInt 0)]),
           (''chart'', JList [])]"

text \<open>
  A GET request to \<^verbatim>\<open>/proxy/tempest\<close> with every parameter present and
  \<^verbatim>\<open>units_temp=kelvin\<close>, and a POST request with the same values in its body.
\<close>

definition kelvin_params :: "(string \<times> string) list" where
  "kelvin_params =
     [(''station_id'', ''1''), (''units_temp'', ''kelvin''), (''units_wind'', ''mph''),
      (''units_pressure'', ''mb''), (''units_precip'', ''in''), (''units_distance'', ''mi''),
      (''api_key'', ''k'')]"

definition kelvin_get :: request where
  "kelvin_get =
     \<lparr>req_method = ''GET'', req_query_params = map_of kelvin_params, req_json = None\<rparr>"

definition kelvin_post :: request where
  "kelvin_post =
     \<lparr>req_method = ''POST'', req_query_params = Map.empty,
      req_json = Some (JObj (map (\<lambda>(k, v). (k, JStr v)) kelvin_params))\<rparr>"

text \<open>A \<^verbatim>\<open>str\<close> field that takes a str and nothing else.\<close>

fun str_only :: "json \<Rightarrow> string option" where
  "str_only (JStr s) = Some s"
| "str_only _ = None"


text \<open>The payload \<^verbatim>\<open>{"current_conditions": null}\<close> in a store.\<close>

definition null_cc_heap :: heap where
  "null_cc_heap = [ODict [(''current_conditions'', VNull)]]"

text \<open>A GET request to \<^verbatim>\<open>/proxy/parquet\<close> with \<^verbatim>\<open>perf=alpha\<close>.\<close>

definition bad_perf_get :: request where
  "bad_perf_get =
     \<lparr>req_method = ''GET'',
      req_query_params =
        map_of [(''id'', ''p1''), (''timeframe'', ''1y''), (''perf'', ''alpha''),
                (''perfChart'', ''drawdown'')],
      req_json = None\<rparr>"

section \<open>Auxiliary facts\<close>

lemma pbind_Inr [simp]: "pbind (Inr x) f = f x"
  by (simp add: pbind_def)

lemma pbind_Inl [simp]: "pbind (Inl e) f = Inl e"
  by (simp add: pbind_def)

lemma pbind_eq_Inr: "pbind m f = Inr y \<longleftrightarrow> (\<exists>x. m = Inr x \<and> f x = Inr y)"
  by (cases m) simp_all

lemma py_get_eq_Inr: "py_get x k d = Inr v \<longleftrightarrow> (\<exists>kvs. x = JObj kvs \<and> v = field_or x k d)"
  by (cases x) (auto simp: field_or_def)

lemma filter_daily_obj: "filter_daily (JObj kvs) = Inr (project daily_fields (JObj kvs))"
  by (simp add: filter_daily_def project_def daily_fields_def field_or_def)

lemma filter_daily_eq_Inr:
  "filter_daily x = Inr y \<longleftrightarrow> (\<exists>kvs. x = JObj kvs) \<and> y = project daily_fields x"
proof (cases x)
  case (JObj kvs)
  then show ?thesis by (auto simp: filter_daily_obj)
qed (simp_all add: filter_daily_def)

lemma daily_loop_eq_Inr:
  "daily_loop xs acc = Inr ys \<longleftrightarrow>
     (\<forall>x \<in> set xs. \<exists>kvs. x = JObj kvs) \<and> ys = acc @ map (project daily_fields) xs"
proof (induction xs arbitrary: acc)
  case Nil
  show ?case by auto
next
  case (Cons x xs)
  show ?case
    by (simp add: pbind_eq_Inr filter_daily_eq_Inr Cons.IH)
qed

lemma filter_current_conditions_obj:
  "filter_current_conditions (JObj kvs) =
     Inr (map (\<lambda>k. (k, field_or (JObj kvs) k JNull)) current_conditions_fields)"
  by (simp add: filter_current_conditions_def copy_field_def current_conditions_fields_def
      field_or_def)

lemma filter_current_conditions_eq_Inr:
  "filter_current_conditions x = Inr d \<longleftrightarrow>
     (\<exists>kvs. x = JObj kvs) \<and> d = map (\<lambda>k. (k, field_or x k JNull)) current_conditions_fields"
proof (cases x)
  case (JObj kvs)
  then show ?thesis by (auto simp: filter_current_conditions_obj)
qed (simp_all add: filter_current_conditions_def copy_field_def)

lemma py_contains_False_field: "py_contains k x = Inr False \<Longrightarrow> field x k = None"
  by (cases x) auto

lemma py_subscript_eq_Inr: "py_subscript x k = Inr v \<longleftrightarrow> field x k = Some v"
  by (cases x) (auto split: option.splits)

lemma cc_stage:
  assumes "py_contains ''current_conditions'' data = Inr b"
    and "(if b then pbind (py_subscript data ''current_conditions'') filter_current_conditions
          else Inr []) = Inr cc"
  shows "case field data ''current_conditions'' of
           None \<Rightarrow> cc = []
         | Some c \<Rightarrow> filter_current_conditions c = Inr cc"
proof (cases b)
  case True
  with assms(2) show ?thesis
    by (auto simp: pbind_eq_Inr py_subscript_eq_Inr)
next
  case False
  with assms show ?thesis
    by (auto dest: py_contains_False_field)
qed

lemma daily_stage:
  assumes "py_contains ''forecast'' data = Inr b"
    and "(if b then pbind (py_subscript data ''forecast'') (py_contains ''daily'')
          else Inr False) = Inr b'"
    and "(if b'
            then pbind (py_subscript data ''forecast'') (\<lambda>forecast.
                 pbind (py_subscript forecast ''daily'') (\<lambda>all_daily.
                 pbind (py_slice4 all_daily) (\<lambda>first4.
                 pbind (py_iter first4) (\<lambda>items.
                 daily_loop items []))))
            else Inr []) = Inr daily"
  shows "case field data ''forecast'' of
           None \<Rightarrow> daily = []
         | Some f \<Rightarrow> (case field f ''daily'' of
               None \<Rightarrow> daily = []
             | Some d \<Rightarrow> (\<exists>s items. py_slice4 d = Inr s \<and> py_iter s = Inr items
                            \<and> daily_loop items [] = Inr daily))"
proof (cases b)
  case False
  with assms show ?thesis
    by (auto dest: py_contains_False_field)
next
  case True
  with assms(2) obtain f where f: "field data ''forecast'' = Some f"
    and b': "py_contains ''daily'' f = Inr b'"
    by (auto simp: pbind_eq_Inr py_subscript_eq_Inr)
  show ?thesis
  proof (cases b')
    case False
    with b' have "field f ''daily'' = None"
      by (auto dest: py_contains_False_field)
    with False assms(3) f show ?thesis by simp
  next
    case True
    with assms(3) f show ?thesis
      by (auto simp: pbind_eq_Inr py_subscript_eq_Inr)
  qed
qed

lemma tempest_stages:
  assumes "transform_data_tempest data = Inr out"
  shows "\<exists>cc daily.
           out = JObj [(''current_conditions'', JObj cc), (''forecast'', JObj [(''daily'', JList daily)])]
         \<and> (case field data ''current_conditions'' of
               None \<Rightarrow> cc = []
             | Some c \<Rightarrow> filter_current_conditions c = Inr cc)
         \<and> (case field data ''forecast'' of
               None \<Rightarrow> daily = []
             | Some f \<Rightarrow> (case field f ''daily'' of
                   None \<Rightarrow> daily = []
                 | Some d \<Rightarrow> (\<exists>s items. py_slice4 d = Inr s \<and> py_iter s = Inr items
                                \<and> daily_loop items [] = Inr daily)))"
proof -
  from assms obtain b cc b1 b2 daily where
    1: "py_contains ''current_conditions'' data = Inr b"
    and 2: "(if b then pbind (py_subscript data ''current_conditions'') filter_current_conditions
          else Inr []) = Inr cc"
    and 3: "py_contains ''forecast'' data = Inr b1"
    and 4: "(if b1 then pbind (py_subscript data ''forecast'') (py_contains ''daily'')
          else Inr False) = Inr b2"
    and 5: "(if b2
            then pbind (py_subscript data ''forecast'') (\<lambda>forecast.
                 pbind (py_subscript forecast ''daily'') (\<lambda>all_daily.
                 pbind (py_slice4 all_daily) (\<lambda>first4.
                 pbind (py_iter first4) (\<lambda>items.
                 daily_loop items []))))
            else Inr []) = Inr daily"
    and 6: "out = JObj [(''current_conditions'', JObj cc), (''forecast'', JObj [(''daily'', JList daily)])]"
    unfolding transform_data_tempest_def pbind_eq_Inr by blast
  from cc_stage [OF 1 2] daily_stage [OF 3 4 5] 6 show ?thesis by blast
qed

lemma project_daily:
  "project daily_fields x =
     JObj [(''day_start_local'', field_or x ''day_start_local'' JNull),
           (''air_temp_high'', field_or x ''air_temp_high'' JNull),
           (''air_temp_low'', field_or x ''air_temp_low'' JNull),
           (''conditions'', field_or x ''conditions'' JNull),
           (''day_num'', field_or x ''day_num'' JNull),
           (''month_num'', field_or x ''month_num'' JNull),
           (''precip_probability'', field_or x ''precip_probability'' JNull),
           (''precip_type'', field_or x ''precip_type'' JNull),
           (''icon'', field_or x ''icon'' JNull),
           (''precip_icon'', field_or x ''precip_icon'' JNull)]"
  by (simp add: project_def daily_fields_def)

lemma slice4_iter:
  assumes "py_slice4 d = Inr s" and "py_iter s = Inr items"
  shows "items = take 4 (items_of d)"
  using assms by (cases d) (auto simp: items_of_def take_map)

lemma tempest_daily:
  assumes "transform_data_tempest data = Inr out"
  shows "field out ''forecast'' =
           Some (JObj [(''daily'', JList (map (project daily_fields) (take 4 (daily_in data))))])"
proof -
  from tempest_stages [OF assms] obtain cc daily where
    out: "out = JObj [(''current_conditions'', JObj cc), (''forecast'', JObj [(''daily'', JList daily)])]"
    and d: "case field data ''forecast'' of
               None \<Rightarrow> daily = []
             | Some f \<Rightarrow> (case field f ''daily'' of
                   None \<Rightarrow> daily = []
                 | Some d \<Rightarrow> (\<exists>s items. py_slice4 d = Inr s \<and> py_iter s = Inr items
                                \<and> daily_loop items [] = Inr daily))"
    by blast
  have "daily = map (project daily_fields) (take 4 (daily_in data))"
  proof (cases "field data ''forecast''")
    case None
    with d show ?thesis by (simp add: daily_in_def)
  next
    case (Some f)
    show ?thesis
    proof (cases "field f ''daily''")
      case None
      with d Some show ?thesis by (simp add: daily_in_def sub_items_def)
    next
      case (Some dl)
      with d \<open>field data ''forecast'' = Some f\<close> obtain s items where
        "py_slice4 dl = Inr s" "py_iter s = Inr items" "daily_loop items [] = Inr daily"
        by auto
      then have "daily = map (project daily_fields) (take 4 (items_of dl))"
        using slice4_iter [of dl s items] by (simp add: daily_loop_eq_Inr)
      with Some \<open>field data ''forecast'' = Some f\<close> show ?thesis
        by (simp add: daily_in_def sub_items_def)
    qed
  qed
  with out show ?thesis by simp
qed

lemma tempest_cc:
  assumes "transform_data_tempest data = Inr out"
  shows "field out ''current_conditions'' =
           Some (case field data ''current_conditions'' of
                   None \<Rightarrow> JObj []
                 | Some c \<Rightarrow> project current_conditions_fields c)"
    and "field data ''current_conditions'' = Some c \<Longrightarrow> \<exists>kvs. c = JObj kvs"
proof -
  from tempest_stages [OF assms] obtain cc daily where
    out: "out = JObj [(''current_conditions'', JObj cc), (''forecast'', JObj [(''daily'', JList daily)])]"
    and c: "case field data ''current_conditions'' of
               None \<Rightarrow> cc = []
             | Some c \<Rightarrow> filter_current_conditions c = Inr cc"
    by blast
  from out c show "field out ''current_conditions'' =
           Some (case field data ''current_conditions'' of
                   None \<Rightarrow> JObj []
                 | Some c \<Rightarrow> project current_conditions_fields c)"
    by (auto simp: filter_current_conditions_eq_Inr project_def split: option.splits)
  from c show "field data ''current_conditions'' = Some c \<Longrightarrow> \<exists>kvs. c = JObj kvs"
    by (auto simp: filter_current_conditions_eq_Inr)
qed

lemma py_get_is_obj: "is_obj x \<Longrightarrow> py_get x k d = Inr (field_or x k d)"
  by (cases x) (simp_all add: field_or_def)

lemma py_get_not_obj: "\<not> is_obj x \<Longrightarrow> py_get x k d = Inl AttributeError"
  by (cases x) simp_all

lemma py_lower_is_str:
  "is_str (field_or h ''assetType'' (JStr [])) \<Longrightarrow>
     py_lower (field_or h ''assetType'' (JStr [])) = Inr (asset_type_lower h)"
  by (cases "field_or h ''assetType'' (JStr [])") (simp_all add: asset_type_lower_def)

lemma py_lower_not_str: "\<not> is_str v \<Longrightarrow> py_lower v = Inl AttributeError"
  by (cases v) simp_all

lemma filter_holding_cases:
  "filter_holding h perf =
     (if holding_shaped h
      then Inr (if holding_qualifies h then Some (project_holding perf h) else None)
      else Inl AttributeError)"
proof (cases "is_obj h")
  case False
  then show ?thesis
    by (simp add: filter_holding_def holding_shaped_def py_get_not_obj)
next
  case h: True
  show ?thesis
  proof (cases "is_str (field_or h ''assetType'' (JStr []))")
    case False
    with h show ?thesis
      by (simp add: filter_holding_def holding_shaped_def py_get_is_obj py_lower_not_str)
  next
    case s: True
    show ?thesis
    proof (cases "asset_type_lower h \<in> {''security'', ''crypto''}")
      case False
      with h s show ?thesis
        by (simp add: filter_holding_def holding_shaped_def holding_qualifies_def
            py_get_is_obj py_lower_is_str)
    next
      case a: True
      show ?thesis
      proof (cases "is_obj (field_or h ''position'' (JObj []))")
        case False
        with h s a show ?thesis
          by (simp add: filter_holding_def holding_shaped_def
            py_get_is_obj py_lower_is_str py_get_not_obj)
      next
        case p: True
        show ?thesis
        proof (cases "holding_qualifies h")
          case False
          with a have t: "py_truthy (field_or (field_or h ''position'' (JObj [])) ''isSold'' JNull)
             \<or> py_eq_zero (field_or (field_or h ''position'' (JObj [])) ''shares'' JNull)"
            by (simp add: holding_qualifies_def)
          have "filter_holding h perf = Inr None"
            using h s a p t by (simp add: filter_holding_def py_get_is_obj py_lower_is_str)
          moreover have "holding_shaped h"
            using h s p False by (simp add: holding_shaped_def)
          ultimately show ?thesis
            using False by simp
        next
          case q: True
          then have nq: "\<not> (py_truthy (field_or (field_or h ''position'' (JObj [])) ''isSold'' JNull)
             \<or> py_eq_zero (field_or (field_or h ''position'' (JObj [])) ''shares'' JNull))"
            by (simp add: holding_qualifies_def)
          show ?thesis
          proof (cases "is_obj (field_or h ''asset'' (JObj []))";
                 cases "is_obj (field_or h ''sharedAsset'' (JObj []))";
                 cases "is_obj (field_or h ''performance'' (JObj []))")
          qed (use h s a p q nq in \<open>simp_all add: filter_holding_def holding_shaped_def
              project_holding_def get_perf_def py_get_is_obj py_lower_is_str py_get_not_obj\<close>)
        qed
      qed
    qed
  qed
qed

lemma get_perf_chart_cases:
  "get_perf_chart c k = (if chart_shaped c then Inr (chart_value k c) else Inl AttributeError)"
  by (cases "is_obj c"; cases "is_obj (field_or c ''values'' (JObj []))")
     (simp_all add: get_perf_chart_def chart_shaped_def chart_value_def py_get_is_obj py_get_not_obj)

lemma holdings_loop_cases:
  "holdings_loop xs perf acc =
     (if list_all holding_shaped xs
      then Inr (acc @ map (project_holding perf) (filter holding_qualifies xs))
      else Inl AttributeError)"
  by (induction xs arbitrary: acc) (simp_all add: filter_holding_cases)

lemma charts_loop_cases:
  "charts_loop xs k first acc =
     (if list_all chart_shaped (if first then tl xs else xs)
      then Inr (acc @ map (chart_value k) (if first then tl xs else xs))
      else Inl AttributeError)"
  by (induction xs k first acc rule: charts_loop.induct) (simp_all add: get_perf_chart_cases)

lemma py_contains_is_obj: "is_obj x \<Longrightarrow> py_contains k x = Inr (field x k \<noteq> None)"
  by (cases x) simp_all

lemma py_subscript_Some: "field x k = Some v \<Longrightarrow> py_subscript x k = Inr v"
  by (cases x) simp_all

lemma contains_subscript_not_obj:
  assumes "\<not> is_obj x"
  shows "pbind (py_contains k x) (\<lambda>b. pbind (if b then pbind (py_subscript x k) f else Inr d) g)
           = Inr r \<longleftrightarrow> py_contains k x = Inr False \<and> g d = Inr r"
  using assms by (cases x) (auto simp: pbind_eq_Inr)

lemma parquet_not_obj:
  assumes "\<not> is_obj data"
  shows "\<exists>e. transform_data_parquet data perf perf_chart = Inl e"
proof (cases "transform_data_parquet data perf perf_chart")
  case (Inr r)
  then have False
    unfolding transform_data_parquet_def contains_subscript_not_obj [OF assms]
    by (simp add: py_get_not_obj [OF assms])
  then show ?thesis ..
qed blast

lemma contains_subscript_obj:
  assumes "is_obj x"
  shows "pbind (py_contains k x) (\<lambda>b. pbind (if b then pbind (py_subscript x k) f else Inr d) g)
           = pbind (case field x k of None \<Rightarrow> Inr d | Some v \<Rightarrow> f v) g"
  using assms by (cases "field x k") (simp_all add: py_contains_is_obj py_subscript_Some)

lemma parquet_obj:
  assumes "is_obj data"
  shows "transform_data_parquet data perf perf_chart =
     pbind (holdings_stage data perf) (\<lambda>holdings.
     pbind (py_get (field_or data ''performance'' (JObj [])) ''purchaseValueForInterval'' JNull) (\<lambda>value_start.
     pbind (py_get (field_or data ''performance'' (JObj [])) ''value'' JNull) (\<lambda>value_now.
     pbind (get_perf (field_or data ''performance'' (JObj [])) perf) (\<lambda>perf_out.
     pbind (charts_stage data perf_chart) (\<lambda>chart.
     Inr (JObj [(''holdings'', JList holdings),
                (''performance'',
                   JObj [(''valueStart'', value_start), (''valueNow'', value_now), (''perf'', perf_out)]),
                (''chart'', JList chart)]))))))"
  unfolding transform_data_parquet_def contains_subscript_obj [OF assms]
    holdings_stage_def charts_stage_def
  by (simp add: py_get_is_obj [OF assms])

lemma py_iter_items_of: "py_iter v = Inr xs \<Longrightarrow> items_of v = xs"
  by (simp add: items_of_def)

lemma holdings_stage_eq_Inr:
  assumes "holdings_stage data perf = Inr hs"
  shows "hs = map (project_holding perf) (filter holding_qualifies (sub_items data ''holdings''))"
    and "list_all holding_shaped (sub_items data ''holdings'')"
proof -
  have "hs = map (project_holding perf) (filter holding_qualifies (sub_items data ''holdings''))
        \<and> list_all holding_shaped (sub_items data ''holdings'')"
  proof (cases "field data ''holdings''")
    case None
    with assms show ?thesis by (simp add: holdings_stage_def sub_items_def)
  next
    case (Some v)
    with assms obtain items where "py_iter v = Inr items" "holdings_loop items perf [] = Inr hs"
      by (auto simp: holdings_stage_def pbind_eq_Inr)
    with Some show ?thesis
      by (auto simp: sub_items_def holdings_loop_cases dest: py_iter_items_of split: if_splits)
  qed
  then show "hs = map (project_holding perf) (filter holding_qualifies (sub_items data ''holdings''))"
    and "list_all holding_shaped (sub_items data ''holdings'')" by simp_all
qed

lemma charts_stage_eq_Inr:
  assumes "charts_stage data perf_chart = Inr cs"
  shows "cs = map (chart_value perf_chart) (tl (sub_items data ''charts''))"
    and "list_all chart_shaped (tl (sub_items data ''charts''))"
proof -
  have "cs = map (chart_value perf_chart) (tl (sub_items data ''charts''))
        \<and> list_all chart_shaped (tl (sub_items data ''charts''))"
  proof (cases "field data ''charts''")
    case None
    with assms show ?thesis by (simp add: charts_stage_def sub_items_def)
  next
    case (Some v)
    with assms obtain items where "py_iter v = Inr items" "charts_loop items perf_chart True [] = Inr cs"
      by (auto simp: charts_stage_def pbind_eq_Inr)
    with Some show ?thesis
      by (auto simp: sub_items_def charts_loop_cases dest: py_iter_items_of split: if_splits)
  qed
  then show "cs = map (chart_value perf_chart) (tl (sub_items data ''charts''))"
    and "list_all chart_shaped (tl (sub_items data ''charts''))" by simp_all
qed

lemma parquet_returns:
  assumes "transform_data_parquet data perf perf_chart = Inr out"
  shows "out =
     JObj [(''holdings'',
              JList (map (project_holding perf) (filter holding_qualifies (sub_items data ''holdings'')))),
           (''performance'',
              JObj [(''valueStart'', field_or (field_or data ''performance'' (JObj [])) ''purchaseValueForInterval'' JNull),
                    (''valueNow'', field_or (field_or data ''performance'' (JObj [])) ''value'' JNull),
                    (''perf'', field_or (field_or data ''performance'' (JObj [])) perf (JInt 0))]),
           (''chart'', JList (map (chart_value perf_chart) (tl (sub_items data ''charts''))))]"
    and "list_all holding_shaped (sub_items data ''holdings'')"
    and "list_all chart_shaped (tl (sub_items data ''charts''))"
    and "is_obj data" and "is_obj (field_or data ''performance'' (JObj []))"
proof -
  show obj: "is_obj data"
    using assms parquet_not_obj [of data perf perf_chart] by auto
  from assms obtain hs vs vn pf cs where
    hs: "holdings_stage data perf = Inr hs"
    and vs: "py_get (field_or data ''performance'' (JObj [])) ''purchaseValueForInterval'' JNull = Inr vs"
    and vn: "py_get (field_or data ''performance'' (JObj [])) ''value'' JNull = Inr vn"
    and pf: "get_perf (field_or data ''performance'' (JObj [])) perf = Inr pf"
    and cs: "charts_stage data perf_chart = Inr cs"
    and out: "out = JObj [(''holdings'', JList hs),
                (''performance'',
                   JObj [(''valueStart'', vs), (''valueNow'', vn), (''perf'', pf)]),
                (''chart'', JList cs)]"
    unfolding parquet_obj [OF obj] pbind_eq_Inr by blast
  from vs show p: "is_obj (field_or data ''performance'' (JObj []))"
    by (auto simp: py_get_eq_Inr)
  from hs show "list_all holding_shaped (sub_items data ''holdings'')"
    by (rule holdings_stage_eq_Inr)
  from cs show "list_all chart_shaped (tl (sub_items data ''charts''))"
    by (rule charts_stage_eq_Inr)
  from vs vn pf p have "vs = field_or (field_or data ''performance'' (JObj [])) ''purchaseValueForInterval'' JNull"
    "vn = field_or (field_or data ''performance'' (JObj [])) ''value'' JNull"
    "pf = field_or (field_or data ''performance'' (JObj [])) perf (JInt 0)"
    by (simp_all add: py_get_is_obj get_perf_def)
  with out holdings_stage_eq_Inr(1) [OF hs] charts_stage_eq_Inr(1) [OF cs]
  show "out =
     JObj [(''holdings'',
              JList (map (project_holding perf) (filter holding_qualifies (sub_items data ''holdings'')))),
           (''performance'',
              JObj [(''valueStart'', field_or (field_or data ''performance'' (JObj [])) ''purchaseValueForInterval'' JNull),
                    (''valueNow'', field_or (field_or data ''performance'' (JObj [])) ''value'' JNull),
                    (''perf'', field_or (field_or data ''performance'' (JObj [])) perf (JInt 0))]),
           (''chart'', JList (map (chart_value perf_chart) (tl (sub_items data ''charts''))))]"
    by simp
qed

lemma is_obj_iff: "is_obj x \<longleftrightarrow> (\<exists>kvs. x = JObj kvs)"
  by (cases x) simp_all

lemma is_list_iter: "is_list v \<Longrightarrow> py_iter v = Inr (items_of v)"
  by (cases v) (simp_all add: items_of_def)

lemma is_list_slice4: "is_list v \<Longrightarrow> py_slice4 v = Inr (JList (take 4 (items_of v)))"
  by (cases v) (simp_all add: items_of_def)

lemma holding_ok_shaped: "holding_ok h \<Longrightarrow> holding_shaped h"
  by (simp add: holding_ok_def holding_shaped_def)

lemma holdings_stage_shaped:
  assumes "case field data ''holdings'' of
          None \<Rightarrow> True
        | Some hs \<Rightarrow> is_list hs \<and> list_all holding_ok (items_of hs)"
  shows "\<exists>hs. holdings_stage data perf = Inr hs"
proof (cases "field data ''holdings''")
  case None
  then show ?thesis by (simp add: holdings_stage_def)
next
  case (Some v)
  with assms have "is_list v" and "list_all holding_shaped (items_of v)"
    by (auto simp: list_all_iff holding_ok_shaped)
  with Some show ?thesis
    by (simp add: holdings_stage_def is_list_iter holdings_loop_cases)
qed

lemma charts_stage_shaped:
  assumes "case field data ''charts'' of
          None \<Rightarrow> True
        | Some cs \<Rightarrow> is_list cs \<and> list_all chart_shaped (tl (items_of cs))"
  shows "\<exists>cs. charts_stage data perf_chart = Inr cs"
proof (cases "field data ''charts''")
  case None
  then show ?thesis by (simp add: charts_stage_def)
next
  case (Some v)
  with assms have "is_list v" and "list_all chart_shaped (tl (items_of v))"
    by auto
  with Some show ?thesis
    by (simp add: charts_stage_def is_list_iter charts_loop_cases)
qed

lemma parquet_shaped_returns:
  assumes "portfolio_shaped data"
  shows "\<exists>out. transform_data_parquet data perf perf_chart = Inr out"
proof -
  from assms have obj: "is_obj data" and p: "is_obj (field_or data ''performance'' (JObj []))"
    by (simp_all add: portfolio_shaped_def)
  from assms obtain hs where hs: "holdings_stage data perf = Inr hs"
    using holdings_stage_shaped [of data perf] by (auto simp: portfolio_shaped_def)
  from assms obtain cs where cs: "charts_stage data perf_chart = Inr cs"
    using charts_stage_shaped [of data perf_chart] by (auto simp: portfolio_shaped_def)
  show ?thesis
    unfolding parquet_obj [OF obj] by (simp add: hs cs get_perf_def py_get_is_obj [OF p])
qed

lemma tempest_shaped_returns:
  assumes "weather_shaped data"
  shows "\<exists>out. transform_data_tempest data = Inr out"
proof -
  from assms have obj: "is_obj data"
    and c: "is_obj (field_or data ''current_conditions'' (JObj []))"
    by (simp_all add: weather_shaped_def)
  have 1: "\<exists>cc. (if field data ''current_conditions'' \<noteq> None
            then pbind (py_subscript data ''current_conditions'') filter_current_conditions
            else Inr []) = Inr cc"
  proof (cases "field data ''current_conditions''")
    case None
    then show ?thesis by simp
  next
    case (Some v)
    with c have "is_obj v" by (simp add: field_or_def)
    with Some show ?thesis
      by (auto simp: py_subscript_Some is_obj_iff filter_current_conditions_obj)
  qed
  have 2: "\<exists>b. (if field data ''forecast'' \<noteq> None
            then pbind (py_subscript data ''forecast'') (py_contains ''daily'')
            else Inr False) = Inr b
          \<and> (\<exists>daily. (if b
            then pbind (py_subscript data ''forecast'') (\<lambda>forecast.
                 pbind (py_subscript forecast ''daily'') (\<lambda>all_daily.
                 pbind (py_slice4 all_daily) (\<lambda>first4.
                 pbind (py_iter first4) (\<lambda>items.
                 daily_loop items []))))
            else Inr []) = Inr daily)"
  proof (cases "field data ''forecast''")
    case None
    then show ?thesis by auto
  next
    case f: (Some f)
    with assms have fo: "is_obj f" by (simp add: weather_shaped_def)
    show ?thesis
    proof (cases "field f ''daily''")
      case None
      with f fo show ?thesis
        by (auto simp: py_subscript_Some py_contains_is_obj)
    next
      case (Some d)
      with assms f have "is_list d" and "list_all is_obj (take 4 (items_of d))"
        by (simp_all add: weather_shaped_def)
      with f fo Some show ?thesis
        by (auto simp: py_subscript_Some py_contains_is_obj is_list_slice4
            daily_loop_eq_Inr list_all_iff is_obj_iff)
    qed
  qed
  from 1 2 show ?thesis
    unfolding transform_data_tempest_def
    by (auto simp: py_contains_is_obj [OF obj])
qed

lemma tempest_returns:
  assumes "transform_data_tempest data = Inr out"
  shows "out =
     JObj [(''current_conditions'',
              case field data ''current_conditions'' of
                None \<Rightarrow> JObj []
              | Some c \<Rightarrow> project current_conditions_fields c),
           (''forecast'',
              JObj [(''daily'', JList (map (project daily_fields) (take 4 (daily_in data))))])]"
proof -
  from tempest_stages [OF assms] obtain cc daily where
    out: "out = JObj [(''current_conditions'', JObj cc), (''forecast'', JObj [(''daily'', JList daily)])]"
    by blast
  from tempest_cc(1) [OF assms] tempest_daily [OF assms] show ?thesis
    unfolding out by simp
qed

section \<open>The store: auxiliary facts\<close>











































































































section \<open>The sample payloads, evaluated\<close>

lemma sample_weather_eval: "transform_data_tempest sample_weather = Inr sample_weather_out"
  by code_simp

lemma empty_weather_eval: "transform_data_tempest (JObj []) = Inr empty_weather_out"
  by code_simp

lemma sample_portfolio_eval:
  "transform_data_parquet sample_portfolio ''ttwror'' ''drawdown'' = Inr sample_portfolio_out"
  by code_simp

lemma empty_portfolio_eval:
  "transform_data_parquet (JObj []) ''ttwror'' ''drawdown'' = Inr empty_portfolio_out"
  by code_simp

section \<open>The portfolio transformer\<close>

text \<open>
  The comparison \<^verbatim>\<open>shares == 0\<close> holds of the int 0, of a float zero and of
  \<^verbatim>\<open>False\<close>, and of nothing else; null and the negative numbers are among the rest.
\<close>

lemma py_eq_zero_iff:
  "py_eq_zero v \<longleftrightarrow> v = JInt 0 \<or> v = JBool False \<or> (\<exists>s e. v = JFloat (FloatNum s 0 e))"
proof (cases v)
  case (JFloat f)
  then show ?thesis by (cases f) auto
qed auto

text \<open>
  Claim C1. Whenever \<^verbatim>\<open>transform_data_parquet\<close> returns, the \<^verbatim>\<open>holdings\<close> of its
  output are the projections of exactly the input holdings that qualify, in their
  original order: a holding is kept if and only if its lower-cased \<^verbatim>\<open>assetType\<close> is
  \<^verbatim>\<open>security\<close> or \<^verbatim>\<open>crypto\<close> (a missing one counts as the empty string and is
  rejected), its \<^verbatim>\<open>position.isSold\<close> is not truthy and its \<^verbatim>\<open>position.shares\<close> does
  not equal 0, equality being the comparison \<^verbatim>\<open>==\<close> characterised above. Null and
  negative shares pass.
\<close>

theorem parquet_holdings_filter:
  assumes "transform_data_parquet data perf perf_chart = Inr out"
  shows "field out ''holdings'' =
           Some (JList (map (project_holding perf)
                          (filter holding_qualifies (sub_items data ''holdings''))))"
  by (subst parquet_returns(1) [OF assms]) simp

text \<open>
  On the sample payload the upper-case security with \<open>-5\<close> shares and the crypto with
  null shares are kept, in this order; the security with 0 shares, the bond and the
  sold crypto are dropped.
\<close>

theorem parquet_holdings_filter_witness:
  "transform_data_parquet sample_portfolio ''ttwror'' ''drawdown'' = Inr sample_portfolio_out
   \<and> field sample_portfolio_out ''holdings'' =
       Some (JList (map (project_holding ''ttwror'')
                      (filter holding_qualifies (sub_items sample_portfolio ''holdings''))))
   \<and> filter holding_qualifies (sub_items sample_portfolio ''holdings'') =
       [JObj [(''assetType'', JStr ''SECURITY''), (''position'', JObj [(''shares'', JInt (- 5))])],
        JObj [(''assetType'', JStr ''Crypto''), (''performance'', JObj [(''ttwror'', JInt 4)])]]"
proof (intro conjI)
  show "transform_data_parquet sample_portfolio ''ttwror'' ''drawdown'' = Inr sample_portfolio_out"
    by (rule sample_portfolio_eval)
  show "field sample_portfolio_out ''holdings'' =
       Some (JList (map (project_holding ''ttwror'')
                      (filter holding_qualifies (sub_items sample_portfolio ''holdings''))))"
    by (rule parquet_holdings_filter [OF sample_portfolio_eval])
  show "filter holding_qualifies (sub_items sample_portfolio ''holdings'') =
       [JObj [(''assetType'', JStr ''SECURITY''), (''position'', JObj [(''shares'', JInt (- 5))])],
        JObj [(''assetType'', JStr ''Crypto''), (''performance'', JObj [(''ttwror'', JInt 4)])]]"
    by code_simp
qed

text \<open>
  Claim C2. Whenever \<^verbatim>\<open>transform_data_parquet\<close> returns on a payload whose \<^verbatim>\<open>charts\<close>
  has \<open>n\<close> elements, the output \<^verbatim>\<open>chart\<close> list has \<open>n - 1\<close> elements (none for
  \<open>n = 0\<close>, as the subtraction on the naturals stops at 0, and none when the key is
  absent): the first record is skipped whatever it is, and every later record
  contributes, in order, the value of \<^verbatim>\<open>get_perf_chart\<close> on it.
\<close>

theorem parquet_chart_skip_first:
  assumes "transform_data_parquet data perf perf_chart = Inr out"
  shows "\<exists>ys. field out ''chart'' = Some (JList ys)
           \<and> length ys = length (sub_items data ''charts'') - 1
           \<and> map Inr ys = map (\<lambda>c. get_perf_chart c perf_chart) (tl (sub_items data ''charts''))"
proof -
  let ?cs = "sub_items data ''charts''"
  let ?ys = "map (chart_value perf_chart) (tl ?cs)"
  have "field out ''chart'' = Some (JList ?ys)"
    by (subst parquet_returns(1) [OF assms]) simp
  moreover have "length ?ys = length ?cs - 1" by simp
  moreover have "map Inr ?ys = map (\<lambda>c. get_perf_chart c perf_chart) (tl ?cs)"
    using parquet_returns(3) [OF assms] by (simp add: get_perf_chart_cases list_all_iff)
  ultimately show ?thesis by blast
qed

theorem parquet_chart_skip_first_witness:
  "transform_data_parquet sample_portfolio ''ttwror'' ''drawdown'' = Inr sample_portfolio_out
   \<and> (\<exists>ys. field sample_portfolio_out ''chart'' = Some (JList ys)
           \<and> length ys = length (sub_items sample_portfolio ''charts'') - 1
           \<and> map Inr ys =
               map (\<lambda>c. get_perf_chart c ''drawdown'') (tl (sub_items sample_portfolio ''charts'')))
   \<and> length (sub_items sample_portfolio ''charts'') = 3
   \<and> field sample_portfolio_out ''chart'' = Some (JList [JInt 0, JInt 3])"
proof (intro conjI)
  show "transform_data_parquet sample_portfolio ''ttwror'' ''drawdown'' = Inr sample_portfolio_out"
    by (rule sample_portfolio_eval)
  show "\<exists>ys. field sample_portfolio_out ''chart'' = Some (JList ys)
           \<and> length ys = length (sub_items sample_portfolio ''charts'') - 1
           \<and> map Inr ys =
               map (\<lambda>c. get_perf_chart c ''drawdown'') (tl (sub_items sample_portfolio ''charts''))"
    by (rule parquet_chart_skip_first [OF sample_portfolio_eval])
  show "length (sub_items sample_portfolio ''charts'') = 3"
    by code_simp
  show "field sample_portfolio_out ''chart'' = Some (JList [JInt 0, JInt 3])"
    by code_simp
qed

text \<open>
  Claim C8. Whenever \<^verbatim>\<open>transform_data_parquet\<close> returns, the output \<^verbatim>\<open>performance\<close>
  is the object with \<^verbatim>\<open>valueStart\<close> the input's
  \<^verbatim>\<open>performance.purchaseValueForInterval\<close> (null if absent), \<^verbatim>\<open>valueNow\<close> the input's
  \<^verbatim>\<open>performance.value\<close> (null if absent) and \<^verbatim>\<open>perf\<close> the result of \<^verbatim>\<open>get_perf\<close> on
  the top-level \<^verbatim>\<open>performance\<close> mapping; with the \<^verbatim>\<open>performance\<close> key absent it is
  null, null and 0.
\<close>

theorem parquet_performance:
  assumes "transform_data_parquet data perf perf_chart = Inr out"
  shows "\<exists>v. get_perf (field_or data ''performance'' (JObj [])) perf = Inr v
           \<and> field out ''performance'' =
               Some (case field data ''performance'' of
                       None \<Rightarrow>
                         JObj [(''valueStart'', JNull), (''valueNow'', JNull), (''perf'', JInt 0)]
                     | Some p \<Rightarrow>
                         JObj [(''valueStart'', field_or p ''purchaseValueForInterval'' JNull),
                               (''valueNow'', field_or p ''value'' JNull),
                               (''perf'', v)])"
proof -
  let ?p = "field_or data ''performance'' (JObj [])"
  from parquet_returns(5) [OF assms]
  have v: "get_perf ?p perf = Inr (field_or ?p perf (JInt 0))"
    by (simp add: get_perf_def py_get_is_obj)
  have "field out ''performance'' =
               Some (case field data ''performance'' of
                       None \<Rightarrow>
                         JObj [(''valueStart'', JNull), (''valueNow'', JNull), (''perf'', JInt 0)]
                     | Some p \<Rightarrow>
                         JObj [(''valueStart'', field_or p ''purchaseValueForInterval'' JNull),
                               (''valueNow'', field_or p ''value'' JNull),
                               (''perf'', field_or ?p perf (JInt 0))])"
    by (subst parquet_returns(1) [OF assms]) (simp add: field_or_def split: option.splits)
  with v show ?thesis by blast
qed

theorem parquet_performance_witness:
  "transform_data_parquet sample_portfolio ''ttwror'' ''drawdown'' = Inr sample_portfolio_out
   \<and> (\<exists>v. get_perf (field_or sample_portfolio ''performance'' (JObj [])) ''ttwror'' = Inr v
           \<and> field sample_portfolio_out ''performance'' =
               Some (case field sample_portfolio ''performance'' of
                       None \<Rightarrow>
                         JObj [(''valueStart'', JNull), (''valueNow'', JNull), (''perf'', JInt 0)]
                     | Some p \<Rightarrow>
                         JObj [(''valueStart'', field_or p ''purchaseValueForInterval'' JNull),
                               (''valueNow'', field_or p ''value'' JNull),
                               (''perf'', v)]))
   \<and> field sample_portfolio_out ''performance'' =
       Some (JObj [(''valueStart'', JNull), (''valueNow'', JInt 100), (''perf'', JInt 9)])
   \<and> field empty_portfolio_out ''performance'' =
       Some (JObj [(''valueStart'', JNull), (''valueNow'', JNull), (''perf'', JInt 0)])"
proof (intro conjI)
  show "transform_data_parquet sample_portfolio ''ttwror'' ''drawdown'' = Inr sample_portfolio_out"
    by (rule sample_portfolio_eval)
  show "\<exists>v. get_perf (field_or sample_portfolio ''performance'' (JObj [])) ''ttwror'' = Inr v
           \<and> field sample_portfolio_out ''performance'' =
               Some (case field sample_portfolio ''performance'' of
                       None \<Rightarrow>
                         JObj [(''valueStart'', JNull), (''valueNow'', JNull), (''perf'', JInt 0)]
                     | Some p \<Rightarrow>
                         JObj [(''valueStart'', field_or p ''purchaseValueForInterval'' JNull),
                               (''valueNow'', field_or p ''value'' JNull),
                               (''perf'', v)])"
    by (rule parquet_performance [OF sample_portfolio_eval])
  show "field sample_portfolio_out ''performance'' =
       Some (JObj [(''valueStart'', JNull), (''valueNow'', JInt 100), (''perf'', JInt 9)])"
    by code_simp
  show "field empty_portfolio_out ''performance'' =
       Some (JObj [(''valueStart'', JNull), (''valueNow'', JNull), (''perf'', JInt 0)])"
    by code_simp
qed

text \<open>
  Claim C10. Whenever \<^verbatim>\<open>transform_data_parquet\<close> returns, every surviving holding has
  a string as its input \<^verbatim>\<open>assetType\<close>, and the \<^verbatim>\<open>assetType\<close> of its output record is
  that string lower-cased, not the input value itself.
\<close>

theorem parquet_asset_type_lowered:
  assumes "transform_data_parquet data perf perf_chart = Inr out"
  shows "\<exists>ps. field out ''holdings'' = Some (JList ps)
           \<and> list_all2
                (\<lambda>h p. \<exists>s. field h ''assetType'' = Some (JStr s)
                          \<and> field p ''assetType'' = Some (JStr (map lower_char s)))
                (filter holding_qualifies (sub_items data ''holdings'')) ps"
proof -
  let ?hs = "filter holding_qualifies (sub_items data ''holdings'')"
  let ?ps = "map (project_holding perf) ?hs"
  have "field out ''holdings'' = Some (JList ?ps)"
    by (subst parquet_returns(1) [OF assms]) simp
  moreover have "\<exists>s. field h ''assetType'' = Some (JStr s)
                   \<and> field (project_holding perf h) ''assetType'' = Some (JStr (map lower_char s))"
    if mem: "h \<in> set ?hs" for h
  proof -
    from mem have q: "holding_qualifies h" by simp
    from mem parquet_returns(2) [OF assms] have "holding_shaped h"
      by (simp add: list_all_iff)
    then have "is_str (field_or h ''assetType'' (JStr []))"
      by (simp add: holding_shaped_def)
    then obtain s where s: "field_or h ''assetType'' (JStr []) = JStr s"
      by (cases "field_or h ''assetType'' (JStr [])") simp_all
    with q have "s \<noteq> []"
      by (auto simp: holding_qualifies_def asset_type_lower_def)
    with s have "field h ''assetType'' = Some (JStr s)"
      by (auto simp: field_or_def split: option.splits)
    moreover from s have "field (project_holding perf h) ''assetType'' = Some (JStr (map lower_char s))"
      by (simp add: project_holding_def asset_type_lower_def)
    ultimately show ?thesis by blast
  qed
  then have "list_all2
                (\<lambda>h p. \<exists>s. field h ''assetType'' = Some (JStr s)
                          \<and> field p ''assetType'' = Some (JStr (map lower_char s))) ?hs ?ps"
    unfolding list_all2_map2 list_all2_same by blast
  ultimately show ?thesis by blast
qed

theorem parquet_asset_type_lowered_witness:
  "transform_data_parquet sample_portfolio ''ttwror'' ''drawdown'' = Inr sample_portfolio_out
   \<and> (\<exists>ps. field sample_portfolio_out ''holdings'' = Some (JList ps)
           \<and> list_all2
                (\<lambda>h p. \<exists>s. field h ''assetType'' = Some (JStr s)
                          \<and> field p ''assetType'' = Some (JStr (map lower_char s)))
                (filter holding_qualifies (sub_items sample_portfolio ''holdings'')) ps)
   \<and> map (\<lambda>h. field h ''assetType'') (filter holding_qualifies (sub_items sample_portfolio ''holdings''))
       = [Some (JStr ''SECURITY''), Some (JStr ''Crypto'')]
   \<and> map (\<lambda>p. field p ''assetType'') (items_of (field_or sample_portfolio_out ''holdings'' JNull))
       = [Some (JStr ''security''), Some (JStr ''crypto'')]"
proof (intro conjI)
  show "transform_data_parquet sample_portfolio ''ttwror'' ''drawdown'' = Inr sample_portfolio_out"
    by (rule sample_portfolio_eval)
  show "\<exists>ps. field sample_portfolio_out ''holdings'' = Some (JList ps)
           \<and> list_all2
                (\<lambda>h p. \<exists>s. field h ''assetType'' = Some (JStr s)
                          \<and> field p ''assetType'' = Some (JStr (map lower_char s)))
                (filter holding_qualifies (sub_items sample_portfolio ''holdings'')) ps"
    by (rule parquet_asset_type_lowered [OF sample_portfolio_eval])
  show "map (\<lambda>h. field h ''assetType'') (filter holding_qualifies (sub_items sample_portfolio ''holdings''))
       = [Some (JStr ''SECURITY''), Some (JStr ''Crypto'')]"
    by code_simp
  show "map (\<lambda>p. field p ''assetType'') (items_of (field_or sample_portfolio_out ''holdings'' JNull))
       = [Some (JStr ''security''), Some (JStr ''crypto'')]"
    by code_simp
qed

section \<open>The weather transformer\<close>

text \<open>
  Claim C3. Whenever \<^verbatim>\<open>transform_data_tempest\<close> returns: with the key
  \<^verbatim>\<open>current_conditions\<close> absent the output \<^verbatim>\<open>current_conditions\<close> is the empty
  mapping; with the key present it has exactly the eight named fields, each the source's
  value, or null where the source lacks the field.
\<close>

theorem tempest_current_conditions:
  assumes "transform_data_tempest data = Inr out"
  shows "field out ''current_conditions'' =
           Some (case field data ''current_conditions'' of
                   None \<Rightarrow> JObj []
                 | Some c \<Rightarrow>
                     JObj [(''air_temperature'', field_or c ''air_temperature'' JNull),
                           (''icon'', field_or c ''icon'' JNull),
                           (''conditions'', field_or c ''conditions'' JNull),
                           (''feels_like'', field_or c ''feels_like'' JNull),
                           (''relative_humidity'', field_or c ''relative_humidity'' JNull),
                           (''station_pressure'', field_or c ''station_pressure'' JNull),
                           (''precip_probability'', field_or c ''precip_probability'' JNull),
                           (''wind_gust'', field_or c ''wind_gust'' JNull)])"
  using tempest_cc(1) [OF assms]
  by (simp add: project_def current_conditions_fields_def split: option.splits)

theorem tempest_current_conditions_witness:
  "transform_data_tempest sample_weather = Inr sample_weather_out
   \<and> field sample_weather_out ''current_conditions'' =
           Some (case field sample_weather ''current_conditions'' of
                   None \<Rightarrow> JObj []
                 | Some c \<Rightarrow>
                     JObj [(''air_temperature'', field_or c ''air_temperature'' JNull),
                           (''icon'', field_or c ''icon'' JNull),
                           (''conditions'', field_or c ''conditions'' JNull),
                           (''feels_like'', field_or c ''feels_like'' JNull),
                           (''relative_humidity'', field_or c ''relative_humidity'' JNull),
                           (''station_pressure'', field_or c ''station_pressure'' JNull),
                           (''precip_probability'', field_or c ''precip_probability'' JNull),
                           (''wind_gust'', field_or c ''wind_gust'' JNull)])
   \<and> field sample_weather ''current_conditions'' =
       Some (JObj [(''icon'', JStr ''cloudy''), (''uv'', JInt 3)])
   \<and> transform_data_tempest (JObj []) = Inr empty_weather_out
   \<and> field empty_weather_out ''current_conditions'' =
           Some (case field (JObj []) ''current_conditions'' of
                   None \<Rightarrow> JObj []
                 | Some c \<Rightarrow>
                     JObj [(''air_temperature'', field_or c ''air_temperature'' JNull),
                           (''icon'', field_or c ''icon'' JNull),
                           (''conditions'', field_or c ''conditions'' JNull),
                           (''feels_like'', field_or c ''feels_like'' JNull),
                           (''relative_humidity'', field_or c ''relative_humidity'' JNull),
                           (''station_pressure'', field_or c ''station_pressure'' JNull),
                           (''precip_probability'', field_or c ''precip_probability'' JNull),
                           (''wind_gust'', field_or c ''wind_gust'' JNull)])
   \<and> field empty_weather_out ''current_conditions'' = Some (JObj [])"
proof (intro conjI)
  show "transform_data_tempest sample_weather = Inr sample_weather_out"
    by (rule sample_weather_eval)
  show "transform_data_tempest (JObj []) = Inr empty_weather_out"
    by (rule empty_weather_eval)
  show "field sample_weather ''current_conditions'' =
       Some (JObj [(''icon'', JStr ''cloudy''), (''uv'', JInt 3)])"
    by code_simp
  show "field empty_weather_out ''current_conditions'' = Some (JObj [])"
    by code_simp
qed (rule tempest_current_conditions [OF sample_weather_eval]
          tempest_current_conditions [OF empty_weather_eval])+

text \<open>
  Claim C4. Whenever \<^verbatim>\<open>transform_data_tempest\<close> returns, the output
  \<^verbatim>\<open>forecast.daily\<close> has as many records as the smaller of 4 and the length of the
  input \<^verbatim>\<open>forecast.daily\<close> (which counts as empty when \<^verbatim>\<open>forecast\<close> or
  \<^verbatim>\<open>forecast.daily\<close> is absent), in the original order, and each output record has
  exactly the ten named fields, each the source's value, or null where the source lacks
  the field.
\<close>

theorem tempest_forecast_daily:
  assumes "transform_data_tempest data = Inr out"
  shows "\<exists>ds. field out ''forecast'' = Some (JObj [(''daily'', JList ds)])
            \<and> length ds = min 4 (length (daily_in data))
            \<and> ds = map (\<lambda>d. JObj [(''day_start_local'', field_or d ''day_start_local'' JNull),
                                   (''air_temp_high'', field_or d ''air_temp_high'' JNull),
                                   (''air_temp_low'', field_or d ''air_temp_low'' JNull),
                                   (''conditions'', field_or d ''conditions'' JNull),
                                   (''day_num'', field_or d ''day_num'' JNull),
                                   (''month_num'', field_or d ''month_num'' JNull),
                                   (''precip_probability'', field_or d ''precip_probability'' JNull),
                                   (''precip_type'', field_or d ''precip_type'' JNull),
                                   (''icon'', field_or d ''icon'' JNull),
                                   (''precip_icon'', field_or d ''precip_icon'' JNull)])
                       (take 4 (daily_in data))"
proof -
  let ?ds = "map (project daily_fields) (take 4 (daily_in data))"
  have "field out ''forecast'' = Some (JObj [(''daily'', JList ?ds)])"
    by (rule tempest_daily [OF assms])
  moreover have "length ?ds = min 4 (length (daily_in data))"
    by (simp add: min.commute)
  ultimately show ?thesis
    unfolding project_daily by blast
qed

theorem tempest_forecast_daily_witness:
  "transform_data_tempest sample_weather = Inr sample_weather_out
   \<and> (\<exists>ds. field sample_weather_out ''forecast'' = Some (JObj [(''daily'', JList ds)])
            \<and> length ds = min 4 (length (daily_in sample_weather))
            \<and> ds = map (\<lambda>d. JObj [(''day_start_local'', field_or d ''day_start_local'' JNull),
                                   (''air_temp_high'', field_or d ''air_temp_high'' JNull),
                                   (''air_temp_low'', field_or d ''air_temp_low'' JNull),
                                   (''conditions'', field_or d ''conditions'' JNull),
                                   (''day_num'', field_or d ''day_num'' JNull),
                                   (''month_num'', field_or d ''month_num'' JNull),
                                   (''precip_probability'', field_or d ''precip_probability'' JNull),
                                   (''precip_type'', field_or d ''precip_type'' JNull),
                                   (''icon'', field_or d ''icon'' JNull),
                                   (''precip_icon'', field_or d ''precip_icon'' JNull)])
                       (take 4 (daily_in sample_weather)))
   \<and> length (daily_in sample_weather) = 5
   \<and> length (items_of (field_or (field_or sample_weather_out ''forecast'' JNull) ''daily'' JNull)) = 4"
proof (intro conjI)
  show "transform_data_tempest sample_weather = Inr sample_weather_out"
    by (rule sample_weather_eval)
  show "length (daily_in sample_weather) = 5"
    by code_simp
  show "length (items_of (field_or (field_or sample_weather_out ''forecast'' JNull) ''daily'' JNull)) = 4"
    by code_simp
qed (rule tempest_forecast_daily [OF sample_weather_eval])

section \<open>The selection helpers\<close>

text \<open>
  Claim C5. On a mapping \<open>m\<close>, \<^verbatim>\<open>get_perf(m, k)\<close> is \<open>m[k]\<close> when \<open>k\<close> is present and
  the integer 0 otherwise. On a chart record \<open>r\<close>, \<^verbatim>\<open>get_perf_chart(r, k)\<close> reads the
  \<^verbatim>\<open>values\<close> of \<open>r\<close>, an absent key counting as the empty mapping, and is
  \<open>values[k]\<close> when present and 0 otherwise (a \<^verbatim>\<open>values\<close> that is not a mapping
  raises). So \<^verbatim>\<open>get_perf({}, "ttwror")\<close> and \<^verbatim>\<open>get_perf({"ttwror": 0}, "ttwror")\<close> are
  both 0.
\<close>

theorem get_perf_selection:
  "get_perf (JObj m) k = Inr (case map_of m k of Some v \<Rightarrow> v | None \<Rightarrow> JInt 0)
   \<and> get_perf_chart (JObj r) k =
       (case map_of r ''values'' of
          None \<Rightarrow> Inr (JInt 0)
        | Some (JObj vs) \<Rightarrow> Inr (case map_of vs k of Some v \<Rightarrow> v | None \<Rightarrow> JInt 0)
        | Some _ \<Rightarrow> Inl AttributeError)
   \<and> get_perf (JObj []) ''ttwror'' = Inr (JInt 0)
   \<and> get_perf (JObj [(''ttwror'', JInt 0)]) ''ttwror'' = Inr (JInt 0)"
  by (simp add: get_perf_def get_perf_chart_def split: option.splits json.splits)

section \<open>Totality\<close>

text \<open>
  Claim C6 as stated fails: a holding whose \<^verbatim>\<open>assetType\<close> is null makes
  \<^verbatim>\<open>transform_data_parquet\<close> raise (null has no method \<^verbatim>\<open>lower\<close>), and a null
  \<^verbatim>\<open>current_conditions\<close> makes \<^verbatim>\<open>transform_data_tempest\<close> raise (null has no method
  \<^verbatim>\<open>get\<close>).
\<close>

theorem transformers_total_counterexample:
  "transform_data_parquet (JObj [(''holdings'', JList [JObj [(''assetType'', JNull)]])])
     ''ttwror'' ''drawdown'' = Inl AttributeError
   \<and> transform_data_tempest (JObj [(''current_conditions'', JNull)]) = Inl AttributeError"
  by code_simp

text \<open>
  Outside the well-shaped payloads defined above a transformer may still return: a
  bond whose \<^verbatim>\<open>position\<close> is a list is skipped before the position is read, an empty
  string for \<^verbatim>\<open>holdings\<close> is an empty iteration, and \<^verbatim>\<open>"daily" in "abc"\<close> is a
  substring test that fails.
\<close>

lemma not_shaped_may_return:
  "\<not> portfolio_shaped (JObj [(''holdings'', JList [JObj [(''assetType'', JStr ''bond''), (''position'', JList [])]])])
   \<and> transform_data_parquet
        (JObj [(''holdings'', JList [JObj [(''assetType'', JStr ''bond''), (''position'', JList [])]])])
        ''ttwror'' ''drawdown'' = Inr empty_portfolio_out
   \<and> \<not> portfolio_shaped (JObj [(''holdings'', JStr [])])
   \<and> transform_data_parquet (JObj [(''holdings'', JStr [])]) ''ttwror'' ''drawdown''
       = Inr empty_portfolio_out
   \<and> \<not> weather_shaped (JObj [(''forecast'', JStr ''abc'')])
   \<and> transform_data_tempest (JObj [(''forecast'', JStr ''abc'')]) = Inr empty_weather_out"
  by code_simp

text \<open>
  Claim C6, amended. On every well-shaped payload both transformers return and do not
  raise, and absent fields degrade to null, 0 or empty containers: the output is the
  fixed projection of the payload, with null for each copied field that is absent, 0
  for an absent \<^verbatim>\<open>perf\<close> or chart scalar, the empty mapping for an absent
  \<^verbatim>\<open>current_conditions\<close> and empty lists for absent \<^verbatim>\<open>forecast.daily\<close>,
  \<^verbatim>\<open>holdings\<close> and \<^verbatim>\<open>charts\<close>; on the payload \<^verbatim>\<open>{}\<close> it consists of these
  defaults only. A well-shaped weather payload is an object whose
  \<^verbatim>\<open>current_conditions\<close> and \<^verbatim>\<open>forecast\<close>, when present, are objects and whose
  \<^verbatim>\<open>forecast.daily\<close>, when present, is a list with objects in its first four places.
  A well-shaped portfolio payload is an object whose \<^verbatim>\<open>holdings\<close>, when present, is a
  list of objects with a string \<^verbatim>\<open>assetType\<close> and object-valued \<^verbatim>\<open>position\<close>,
  \<^verbatim>\<open>asset\<close>, \<^verbatim>\<open>sharedAsset\<close> and \<^verbatim>\<open>performance\<close> (each when present), whose
  \<^verbatim>\<open>performance\<close>, when present, is an object and whose \<^verbatim>\<open>charts\<close>, when present,
  is a list whose records after the first are objects with an object-valued
  \<^verbatim>\<open>values\<close> (when present). On other payloads a transformer may raise, as it does
  on the two payloads above.
\<close>

theorem transformers_return_on_shaped:
  "(weather_shaped data \<longrightarrow>
      transform_data_tempest data =
        Inr (JObj [(''current_conditions'',
                      case field data ''current_conditions'' of
                        None \<Rightarrow> JObj []
                      | Some c \<Rightarrow> project current_conditions_fields c),
                   (''forecast'',
                      JObj [(''daily'',
                         JList (map (project daily_fields) (take 4 (daily_in data))))])]))
   \<and> (portfolio_shaped data \<longrightarrow>
      transform_data_parquet data perf perf_chart =
        Inr (JObj [(''holdings'',
                      JList (map (project_holding perf)
                               (filter holding_qualifies (sub_items data ''holdings'')))),
                   (''performance'',
                      JObj [(''valueStart'',
                               field_or (field_or data ''performance'' (JObj []))
                                 ''purchaseValueForInterval'' JNull),
                            (''valueNow'',
                               field_or (field_or data ''performance'' (JObj [])) ''value'' JNull),
                            (''perf'',
                               field_or (field_or data ''performance'' (JObj [])) perf (JInt 0))]),
                   (''chart'',
                      JList (map (chart_value perf_chart) (tl (sub_items data ''charts''))))]))
   \<and> transform_data_tempest (JObj []) =
        Inr (JObj [(''current_conditions'', JObj []), (''forecast'', JObj [(''daily'', JList [])])])
   \<and> transform_data_parquet (JObj []) perf perf_chart =
        Inr (JObj [(''holdings'', JList []),
                   (''performance'',
                      JObj [(''valueStart'', JNull), (''valueNow'', JNull), (''perf'', JInt 0)]),
                   (''chart'', JList [])])"
proof (intro conjI impI)
  assume w: "weather_shaped data"
  then obtain out where out: "transform_data_tempest data = Inr out"
    using tempest_shaped_returns by blast
  show "transform_data_tempest data =
        Inr (JObj [(''current_conditions'',
                      case field data ''current_conditions'' of
                        None \<Rightarrow> JObj []
                      | Some c \<Rightarrow> project current_conditions_fields c),
                   (''forecast'',
                      JObj [(''daily'',
                         JList (map (project daily_fields) (take 4 (daily_in data))))])])"
    using tempest_returns [OF out] out by simp
next
  assume p: "portfolio_shaped data"
  then obtain out where out: "transform_data_parquet data perf perf_chart = Inr out"
    using parquet_shaped_returns by blast
  show "transform_data_parquet data perf perf_chart =
        Inr (JObj [(''holdings'',
                      JList (map (project_holding perf)
                               (filter holding_qualifies (sub_items data ''holdings'')))),
                   (''performance'',
                      JObj [(''valueStart'',
                               field_or (field_or data ''performance'' (JObj []))
                                 ''purchaseValueForInterval'' JNull),
                            (''valueNow'',
                               field_or (field_or data ''performance'' (JObj [])) ''value'' JNull),
                            (''perf'',
                               field_or (field_or data ''performance'' (JObj [])) perf (JInt 0))]),
                   (''chart'',
                      JList (map (chart_value perf_chart) (tl (sub_items data ''charts''))))])"
    using parquet_returns(1) [OF out] out by simp
next
  show "transform_data_tempest (JObj []) =
        Inr (JObj [(''current_conditions'', JObj []), (''forecast'', JObj [(''daily'', JList [])])])"
    by (simp add: transform_data_tempest_def)
next
  show "transform_data_parquet (JObj []) perf perf_chart =
        Inr (JObj [(''holdings'', JList []),
                   (''performance'',
                      JObj [(''valueStart'', JNull), (''valueNow'', JNull), (''perf'', JInt 0)]),
                   (''chart'', JList [])])"
    by (simp add: transform_data_parquet_def get_perf_def)
qed

theorem transformers_return_on_shaped_witness:
  "weather_shaped sample_weather
   \<and> transform_data_tempest sample_weather =
        Inr (JObj [(''current_conditions'',
                      case field sample_weather ''current_conditions'' of
                        None \<Rightarrow> JObj []
                      | Some c \<Rightarrow> project current_conditions_fields c),
                   (''forecast'',
                      JObj [(''daily'',
                         JList (map (project daily_fields) (take 4 (daily_in sample_weather))))])])
   \<and> portfolio_shaped sample_portfolio
   \<and> transform_data_parquet sample_portfolio ''ttwror'' ''drawdown'' =
        Inr (JObj [(''holdings'',
                      JList (map (project_holding ''ttwror'')
                               (filter holding_qualifies (sub_items sample_portfolio ''holdings'')))),
                   (''performance'',
                      JObj [(''valueStart'',
                               field_or (field_or sample_portfolio ''performance'' (JObj []))
                                 ''purchaseValueForInterval'' JNull),
                            (''valueNow'',
                               field_or (field_or sample_portfolio ''performance'' (JObj []))
                                 ''value'' JNull),
                            (''perf'',
                               field_or (field_or sample_portfolio ''performance'' (JObj []))
                                 ''ttwror'' (JInt 0))]),
                   (''chart'',
                      JList (map (chart_value ''drawdown'')
                               (tl (sub_items sample_portfolio ''charts''))))])
   \<and> transform_data_tempest sample_weather = Inr sample_weather_out
   \<and> transform_data_parquet sample_portfolio ''ttwror'' ''drawdown'' = Inr sample_portfolio_out"
proof -
  have w: "weather_shaped sample_weather" by code_simp
  have p: "portfolio_shaped sample_portfolio" by code_simp
  note t = transformers_return_on_shaped [where data = sample_weather]
    transformers_return_on_shaped [where data = sample_portfolio and perf = "''ttwror''"
      and perf_chart = "''drawdown''"]
  from w p t sample_weather_eval sample_portfolio_eval show ?thesis by blast
qed

section \<open>The endpoint handlers\<close>

text \<open>What holds of the handlers: no upstream call is made unless the request validates.\<close>

lemma tempest_no_call_on_invalid:
  "fst (proxy_request_tempest str_field request upstream)
     \<longleftrightarrow> (\<exists>rd. tempest_request_data str_field request = Inr rd)"
  by (cases "tempest_request_data str_field request") (simp_all add: proxy_request_tempest_def)

lemma parquet_no_call_on_invalid:
  "fst (proxy_request_parquet str_field request upstream)
     \<longleftrightarrow> (\<exists>rd. parquet_request_data str_field request = Inr rd)"
  by (cases "parquet_request_data str_field request") (simp_all add: proxy_request_parquet_def)

text \<open>
  An upstream status outside 200 to 299 is passed on with the body text in the detail,
  and a connection failure or timeout becomes 502.
\<close>

lemma fetch_data_errors:
  "fetch_data api (RequestError message) = Inl (HTTPException 502 (''Proxy error: '' @ message))"
  "\<not> (200 \<le> code \<and> code \<le> 299) \<Longrightarrow>
     fetch_data api (Response code body_text body_json)
       = Inl (HTTPException code (api @ '' API error: '' @ body_text))"
  by (auto simp: fetch_data_def)

text \<open>The POST branch answers every body that does not validate with 400.\<close>

lemma tempest_post_invalid_400:
  assumes "req_method request = ''POST''"
    and "tempest_request_data str_field request = Inl e"
  shows "e = HTTPException 400 ''Invalid JSON body.''"
  using assms by (auto simp: tempest_request_data_def split: option.splits)

text \<open>The GET branch of \<^verbatim>\<open>/proxy/parquet\<close> lets an invalid \<^verbatim>\<open>perf\<close> through likewise.\<close>

lemma parquet_get_invalid_perf_uncaught:
  "proxy_request_parquet str_only bad_perf_get (Response 200 ''{}'' (Some (JObj [])))
     = (False, Inl ValidationError)"
  by code_simp

text \<open>
  Claim C9 fails on the code. A GET request to \<^verbatim>\<open>/proxy/tempest\<close> that has every
  parameter but an invalid \<^verbatim>\<open>units_temp\<close> passes the presence test of line 191; the
  constructor of line 194 then raises \<^verbatim>\<open>ValidationError\<close>, which the GET branch does
  not catch, so the handler ends with that exception (status 500) and not with
  \<^verbatim>\<open>HTTPException(400)\<close>. The POST branch catches the same error and answers 400.
\<close>

theorem tempest_get_invalid_unit_uncaught:
  "proxy_request_tempest str_only kelvin_get (Response 200 ''{}'' (Some (JObj [])))
     = (False, Inl ValidationError)
   \<and> http_status (snd (proxy_request_tempest str_only kelvin_get
                          (Response 200 ''{}'' (Some (JObj []))))) = 500
   \<and> proxy_request_tempest str_only kelvin_post (Response 200 ''{}'' (Some (JObj [])))
     = (False, Inl (HTTPException 400 ''Invalid JSON body.''))"
  by code_simp

section \<open>Schema, mutation and sharing\<close>

text \<open>On the sample payloads the runs on the store yield the outputs computed before.\<close>

lemma sample_weather_store:
  "run_readback 5 (h_transform_data_tempest (fst (store sample_weather []))
                     (snd (store sample_weather [])))
     = Inr (Some sample_weather_out)"
  by code_simp

lemma sample_portfolio_store:
  "run_readback 5 (h_transform_data_parquet (fst (store sample_portfolio [])) ''ttwror'' ''drawdown''
                     (snd (store sample_portfolio [])))
     = Inr (Some sample_portfolio_out)"
  by code_simp

text \<open>On the ill-shaped payloads of before the runs on the store raise the same exception.\<close>

lemma ill_shaped_store:
  "fst (h_transform_data_parquet
          (fst (store (JObj [(''holdings'', JList [JObj [(''assetType'', JNull)]])]) []))
          ''ttwror'' ''drawdown''
          (snd (store (JObj [(''holdings'', JList [JObj [(''assetType'', JNull)]])]) [])))
     = Inl AttributeError
   \<and> fst (h_transform_data_tempest (VRef 0) null_cc_heap) = Inl AttributeError"
  by code_simp




end
